theory Spec2Isabelle
  imports Main
begin

section \<open>JavaScript values used by the statistics code\<close>

text \<open>
  The counters of the statistics record are JavaScript Numbers. The model keeps the
  integers among them (\<open>Num\<close>), the value \<open>NaN\<close> that arithmetic on a missing operand
  produces, and \<open>undefined\<close> for a field that a JSON payload does not carry. Integers are
  unbounded here: the counters of the source stay exact below \<open>2^53\<close>.
\<close>

datatype jsnum = Num int | NaN | Undefined

text \<open>\<open>a + b\<close> and \<open>a - b\<close> on Numbers: exact on integers, NaN as soon as one side is
  NaN or undefined.\<close>

fun jadd :: "jsnum \<Rightarrow> jsnum \<Rightarrow> jsnum" where
  "jadd (Num a) (Num b) = Num (a + b)"
| "jadd _ _ = NaN"

fun jsub :: "jsnum \<Rightarrow> jsnum \<Rightarrow> jsnum" where
  "jsub (Num a) (Num b) = Num (a - b)"
| "jsub _ _ = NaN"

text \<open>Truthiness of a Number: \<open>0\<close>, NaN and undefined are falsy.\<close>

fun truthy :: "jsnum \<Rightarrow> bool" where
  "truthy (Num n) = (n \<noteq> 0)"
| "truthy _ = False"

text \<open>\<open>a || b\<close>.\<close>

definition js_or :: "jsnum \<Rightarrow> jsnum \<Rightarrow> jsnum" where
  "js_or a b = (if truthy a then a else b)"

text \<open>Truthiness of a string-valued field that may be absent: the empty string is falsy.\<close>

fun truthy_str :: "string option \<Rightarrow> bool" where
  "truthy_str None = False"
| "truthy_str (Some s) = (s \<noteq> [])"

definition js_or_str :: "string option \<Rightarrow> string \<Rightarrow> string" where
  "js_or_str a b = (case a of None \<Rightarrow> b | Some s \<Rightarrow> if s = [] then b else s)"

subsection \<open>Strings: \<open>toLowerCase\<close> and \<open>includes\<close>\<close>

text \<open>Names are modelled as ASCII strings; \<open>toLowerCase\<close> maps \<open>A\<close>..\<open>Z\<close> to
  \<open>a\<close>..\<open>z\<close> and leaves every other character as it is.\<close>

definition lower_char :: "char \<Rightarrow> char" where
  "lower_char c =
     (case map_of (zip ''ABCDEFGHIJKLMNOPQRSTUVWXYZ'' ''abcdefghijklmnopqrstuvwxyz'') c of
        Some l \<Rightarrow> l
      | None \<Rightarrow> c)"

definition toLowerCase :: "string \<Rightarrow> string" where
  "toLowerCase s = map lower_char s"

fun starts_with :: "string \<Rightarrow> string \<Rightarrow> bool" where
  "starts_with s [] = True"
| "starts_with [] (k # ks) = False"
| "starts_with (c # cs) (k # ks) = (c = k \<and> starts_with cs ks)"

text \<open>\<open>s.includes(k)\<close>: \<open>k\<close> occurs in \<open>s\<close> as a contiguous substring.\<close>

fun str_includes :: "string \<Rightarrow> string \<Rightarrow> bool" where
  "str_includes [] k = (k = [])"
| "str_includes (c # cs) k = (starts_with (c # cs) k \<or> str_includes cs k)"

section \<open>The data model\<close>

text \<open>A line item of an order payload. A field that the payload leaves out is
  \<open>None\<close> (for a string) or \<open>Undefined\<close> (for a number).\<close>

record item =
  name :: "string option"
  price :: jsnum
  quantity :: jsnum
  image :: "string option"

record customer =
  cname :: "string option"
  phone :: "string option"

text \<open>The request body of \<open>POST /api/orders\<close>, which is also the \<open>orderData\<close> handed to
  \<open>updateStats\<close>.\<close>

record orderData =
  items :: "item list option"
  subtotal :: jsnum
  tax :: jsnum
  total :: jsnum
  otype :: "string option"
  customer :: "customer option"

text \<open>\<open>categoryStats\<close> of \<open>StatsSchema\<close>: the seven fixed buckets.\<close>

record categoryStats =
  Rice :: jsnum
  Sizzling :: jsnum
  Party :: jsnum
  Drink :: jsnum
  Cafe :: jsnum
  Milk :: jsnum
  Frappe :: jsnum

text \<open>An entry of \<open>topProducts\<close>.\<close>

record product =
  pname :: "string option"
  pquantity :: jsnum

text \<open>A document of \<open>StatsSchema\<close>, as the plain object of its fields. \<open>date\<close> is the
  number of the calendar day (local midnight), \<open>hourlyStats\<close> maps the keys \<open>0\<close>..\<open>23\<close> of the
  schema to their counters.\<close>

record stats =
  date :: int
  totalOrders :: jsnum
  ordersToday :: jsnum
  itemsSold :: jsnum
  itemsSoldToday :: jsnum
  dineInOrders :: jsnum
  takeoutOrders :: jsnum
  categoryStats :: categoryStats
  topProducts :: "product list"
  hourlyStats :: "nat \<rightharpoonup> jsnum"
  lastUpdated :: int

text \<open>The saved order document (\<open>orderSchema\<close>), with the defaults that the handler
  fills in.\<close>

record order_item =
  oi_name :: string
  oi_price :: jsnum
  oi_quantity :: jsnum
  oi_image :: string

record order_doc =
  o_id :: nat
  o_items :: "order_item list"
  o_subtotal :: jsnum
  o_tax :: jsnum
  o_total :: jsnum
  o_type :: "string option"
  o_customer_name :: string
  o_customer_phone :: string

datatype error = TypeError | ValidationError | PersistenceError

datatype log_entry =
    OrderSaved nat
  | StatsUpdateError error
  | OrderCreationError error

text \<open>The persistent state: the orders collection, the stats collection keyed by day,
  and the console.\<close>

record world =
  orders :: "order_doc list"
  statsdb :: "int \<rightharpoonup> stats"
  console :: "log_entry list"

text \<open>The three readings of the clock that \<open>updateStats\<close> makes: the day of
  \<open>today\<close>, the hour of \<open>new Date().getHours()\<close>, and the time stamp stored in
  \<open>lastUpdated\<close>.\<close>

record clock =
  today :: int
  hour :: nat
  now :: int

text \<open>Which storage operations reject because the store cannot be reached. Such failures
  are an input of the model.\<close>

record faults =
  order_save_fails :: bool
  find_today_fails :: bool
  find_yesterday_fails :: bool
  stats_save_fails :: bool

definition no_faults :: faults where
  "no_faults = \<lparr>order_save_fails = False, find_today_fails = False,
                 find_yesterday_fails = False, stats_save_fails = False\<rparr>"

section \<open>\<open>Stats.updateStats\<close>\<close>

text \<open>The schema defaults of \<open>hourlyStats\<close>: every key \<open>0\<close>..\<open>23\<close> is \<open>0\<close>.\<close>

definition default_hourlyStats :: "nat \<rightharpoonup> jsnum" where
  "default_hourlyStats = (\<lambda>h. if h < 24 then Some (Num 0) else None)"

definition zero_categoryStats :: categoryStats where
  "zero_categoryStats =
     \<lparr>Rice = Num 0, Sizzling = Num 0, Party = Num 0, Drink = Num 0,
      Cafe = Num 0, Milk = Num 0, Frappe = Num 0\<rparr>"

text \<open>\<open>new this({date: today, totalOrders: ..., itemsSold: ..., dineInOrders: ...,
  takeoutOrders: ..., categoryStats: ...})\<close>: the five fields given are taken from
  yesterday's record when there is one, every other field has its schema default.\<close>

definition new_stats :: "clock \<Rightarrow> stats option \<Rightarrow> stats" where
  "new_stats c yesterdayStats =
     \<lparr>date = today c,
      totalOrders = (case yesterdayStats of Some y \<Rightarrow> totalOrders y | None \<Rightarrow> Num 0),
      ordersToday = Num 0,
      itemsSold = (case yesterdayStats of Some y \<Rightarrow> itemsSold y | None \<Rightarrow> Num 0),
      itemsSoldToday = Num 0,
      dineInOrders = (case yesterdayStats of Some y \<Rightarrow> dineInOrders y | None \<Rightarrow> Num 0),
      takeoutOrders = (case yesterdayStats of Some y \<Rightarrow> takeoutOrders y | None \<Rightarrow> Num 0),
      categoryStats =
        (case yesterdayStats of Some y \<Rightarrow> categoryStats y | None \<Rightarrow> zero_categoryStats),
      topProducts = [],
      hourlyStats = default_hourlyStats,
      lastUpdated = now c\<rparr>"

text \<open>Today's record, or a new one seeded from yesterday's (the \<open>findOne\<close> calls and
  the \<open>if (!stats)\<close> block).\<close>

definition load_stats :: "faults \<Rightarrow> clock \<Rightarrow> world \<Rightarrow> error + stats" where
  "load_stats f c w =
     (if find_today_fails f then Inl PersistenceError
      else case statsdb w (today c) of
             Some s \<Rightarrow> Inr s
           | None \<Rightarrow>
               if find_yesterday_fails f then Inl PersistenceError
               else Inr (new_stats c (statsdb w (today c - 1))))"

text \<open>\<open>orderData.items.reduce((sum, item) => sum + item.quantity, 0)\<close>.\<close>

definition itemsInOrder :: "item list \<Rightarrow> jsnum" where
  "itemsInOrder its = foldl (\<lambda>sum it. jadd sum (quantity it)) (Num 0) its"

text \<open>The \<open>if\<close> / \<open>else if\<close> on \<open>orderData.type\<close>.\<close>

definition count_type :: "string option \<Rightarrow> stats \<Rightarrow> stats" where
  "count_type t s =
     (if t = Some ''Dine In'' then s\<lparr>dineInOrders := jadd (dineInOrders s) (Num 1)\<rparr>
      else if t = Some ''Take Out'' then s\<lparr>takeoutOrders := jadd (takeoutOrders s) (Num 1)\<rparr>
      else s)"

text \<open>\<open>stats.hourlyStats[hour] = (stats.hourlyStats[hour] || 0) + 1\<close>.\<close>

definition count_hour :: "nat \<Rightarrow> (nat \<rightharpoonup> jsnum) \<Rightarrow> (nat \<rightharpoonup> jsnum)" where
  "count_hour h hs =
     hs(h \<mapsto> jadd (js_or (case hs h of Some v \<Rightarrow> v | None \<Rightarrow> Undefined) (Num 0)) (Num 1))"

text \<open>The body of the first \<open>forEach\<close>: the keyword rules in the order of the source.
  \<open>item.name.toLowerCase()\<close> throws a TypeError when the name is missing.\<close>

definition categorize :: "categoryStats \<Rightarrow> item \<Rightarrow> error + categoryStats" where
  "categorize cs it =
     (case name it of
        None \<Rightarrow> Inl TypeError
      | Some n \<Rightarrow>
          let itemName = toLowerCase n; q = quantity it in
          Inr (if str_includes itemName ''bulgogi'' \<or> str_includes itemName ''lechon'' \<or>
                  str_includes itemName ''chicken'' \<or> str_includes itemName ''adobo'' \<or>
                  str_includes itemName ''shanghai'' \<or> str_includes itemName ''fish'' \<or>
                  str_includes itemName ''dory'' \<or> str_includes itemName ''pork''
               then cs\<lparr>Rice := jadd (Rice cs) q\<rparr>
               else if str_includes itemName ''sizzling'' \<or> str_includes itemName ''sisig'' \<or>
                       str_includes itemName ''liempo'' \<or> str_includes itemName ''porkchop''
               then cs\<lparr>Sizzling := jadd (Sizzling cs) q\<rparr>
               else if str_includes itemName ''pancit'' \<or> str_includes itemName ''spaghetti'' \<or>
                       str_includes itemName ''party''
               then cs\<lparr>Party := jadd (Party cs) q\<rparr>
               else if str_includes itemName ''lemonade'' \<or> str_includes itemName ''soda'' \<or>
                       str_includes itemName ''red tea'' \<and> \<not> str_includes itemName ''milk''
               then cs\<lparr>Drink := jadd (Drink cs) q\<rparr>
               else if str_includes itemName ''cafe'' \<or> str_includes itemName ''americano'' \<or>
                       str_includes itemName ''latte'' \<or> str_includes itemName ''macchiato'' \<or>
                       str_includes itemName ''coffee''
               then cs\<lparr>Cafe := jadd (Cafe cs) q\<rparr>
               else if str_includes itemName ''milk tea'' \<or> str_includes itemName ''matcha green tea''
               then cs\<lparr>Milk := jadd (Milk cs) q\<rparr>
               else if str_includes itemName ''frappe'' \<or> str_includes itemName ''cookies & cream''
               then cs\<lparr>Frappe := jadd (Frappe cs) q\<rparr>
               else cs))"

text \<open>The first \<open>forEach\<close> over the items; it stops at the first item that throws.\<close>

fun categorize_all :: "categoryStats \<Rightarrow> item list \<Rightarrow> error + categoryStats" where
  "categorize_all cs [] = Inr cs"
| "categorize_all cs (it # its) =
     (case categorize cs it of Inl e \<Rightarrow> Inl e | Inr cs' \<Rightarrow> categorize_all cs' its)"

text \<open>The body of the second \<open>forEach\<close>: \<open>find\<close> returns the first entry with the
  item's name, whose quantity grows by the item's; without such an entry a new one is
  pushed at the end.\<close>

fun upsert :: "product list \<Rightarrow> item \<Rightarrow> product list" where
  "upsert [] it = [\<lparr>pname = name it, pquantity = quantity it\<rparr>]"
| "upsert (p # ps) it =
     (if pname p = name it then p\<lparr>pquantity := jadd (pquantity p) (quantity it)\<rparr> # ps
      else p # upsert ps it)"

definition upsert_all :: "product list \<Rightarrow> item list \<Rightarrow> product list" where
  "upsert_all ps its = foldl upsert ps its"

text \<open>\<open>Array.prototype.sort\<close> with a comparator is stable; it is modelled as the
  stable insertion sort: an element moves behind another only when the comparator is
  positive on the pair (a NaN result counts as \<open>0\<close>).\<close>

fun positive :: "jsnum \<Rightarrow> bool" where
  "positive (Num n) = (0 < n)"
| "positive _ = False"

fun js_insert :: "('a \<Rightarrow> 'a \<Rightarrow> jsnum) \<Rightarrow> 'a \<Rightarrow> 'a list \<Rightarrow> 'a list" where
  "js_insert cmp x [] = [x]"
| "js_insert cmp x (y # ys) =
     (if positive (cmp x y) then y # js_insert cmp x ys else x # y # ys)"

definition js_sort :: "('a \<Rightarrow> 'a \<Rightarrow> jsnum) \<Rightarrow> 'a list \<Rightarrow> 'a list" where
  "js_sort cmp xs = foldr (js_insert cmp) xs []"

text \<open>The comparator \<open>(a, b) => b.quantity - a.quantity\<close>.\<close>

definition by_quantity_desc :: "product \<Rightarrow> product \<Rightarrow> jsnum" where
  "by_quantity_desc a b = jsub (pquantity b) (pquantity a)"

text \<open>The updates between loading the record and saving it.\<close>

definition apply_order :: "clock \<Rightarrow> orderData \<Rightarrow> stats \<Rightarrow> error + stats" where
  "apply_order c od s =
     (case items od of
        None \<Rightarrow> Inl TypeError
      | Some its \<Rightarrow>
          let s1 = s\<lparr>totalOrders := jadd (totalOrders s) (Num 1),
                     ordersToday := jadd (ordersToday s) (Num 1)\<rparr>;
              n = itemsInOrder its;
              s2 = s1\<lparr>itemsSold := jadd (itemsSold s1) n,
                      itemsSoldToday := jadd (itemsSoldToday s1) n\<rparr>;
              s3 = count_type (otype od) s2;
              s4 = s3\<lparr>hourlyStats := count_hour (hour c) (hourlyStats s3)\<rparr>
          in (case categorize_all (categoryStats s4) its of
                Inl e \<Rightarrow> Inl e
              | Inr cs \<Rightarrow>
                  Inr (s4\<lparr>categoryStats := cs,
                          topProducts :=
                            take 10 (js_sort by_quantity_desc (upsert_all (topProducts s4) its)),
                          lastUpdated := now c\<rparr>)))"

text \<open>\<open>stats.save()\<close> validates the document against \<open>StatsSchema\<close> before it writes. Every
  counter is a path of type \<open>Number\<close>: a NaN in such a path fails the cast to \<open>Number\<close> and
  \<open>save\<close> rejects with a ValidationError. No path is required, so a path that is undefined
  passes.\<close>

fun castable :: "jsnum \<Rightarrow> bool" where
  "castable NaN = False"
| "castable _ = True"

definition validate_stats :: "stats \<Rightarrow> bool" where
  "validate_stats s =
     (castable (totalOrders s) \<and> castable (ordersToday s) \<and>
      castable (itemsSold s) \<and> castable (itemsSoldToday s) \<and>
      castable (dineInOrders s) \<and> castable (takeoutOrders s) \<and>
      castable (Rice (categoryStats s)) \<and> castable (Sizzling (categoryStats s)) \<and>
      castable (Party (categoryStats s)) \<and> castable (Drink (categoryStats s)) \<and>
      castable (Cafe (categoryStats s)) \<and> castable (Milk (categoryStats s)) \<and>
      castable (Frappe (categoryStats s)) \<and>
      list_all (\<lambda>p. castable (pquantity p)) (topProducts s) \<and>
      list_all (\<lambda>h. case hourlyStats s h of None \<Rightarrow> True | Some v \<Rightarrow> castable v) [0..<24])"

text \<open>\<open>updateStats\<close>: load or create, update, save. The result is the record and the
  state with the record stored under today's key.\<close>

definition updateStats :: "faults \<Rightarrow> clock \<Rightarrow> orderData \<Rightarrow> world \<Rightarrow> error + (stats \<times> world)" where
  "updateStats f c od w =
     (case load_stats f c w of
        Inl e \<Rightarrow> Inl e
      | Inr s \<Rightarrow>
          (case apply_order c od s of
             Inl e \<Rightarrow> Inl e
           | Inr s' \<Rightarrow>
               if \<not> validate_stats s' then Inl ValidationError
               else if stats_save_fails f then Inl PersistenceError
               else Inr (s', w\<lparr>statsdb := (statsdb w)(today c \<mapsto> s')\<rparr>)))"

section \<open>\<open>Stats.getDashboardStats\<close>\<close>

text \<open>The object returned to the dashboard.\<close>

record dashboard =
  d_totalOrders :: jsnum
  d_totalProducts :: jsnum
  d_totalStocks :: jsnum
  d_ordersToday :: jsnum
  d_itemsSoldToday :: jsnum
  d_dineInToday :: jsnum
  d_takeoutToday :: jsnum
  d_categoryStats :: categoryStats
  d_hourlyStats :: "nat \<rightharpoonup> jsnum"
  d_topProducts :: "product list"

text \<open>One \<open>findOne\<close> for today's key and no write: the state is returned as it was
  received.\<close>

definition getDashboardStats :: "faults \<Rightarrow> clock \<Rightarrow> world \<Rightarrow> (error + dashboard) \<times> world" where
  "getDashboardStats f c w =
     (if find_today_fails f then (Inl PersistenceError, w)
      else case statsdb w (today c) of
             None \<Rightarrow>
               (Inr \<lparr>d_totalOrders = Num 0, d_totalProducts = Num 0, d_totalStocks = Num 0,
                     d_ordersToday = Num 0, d_itemsSoldToday = Num 0, d_dineInToday = Num 0,
                     d_takeoutToday = Num 0,
                     d_categoryStats =
                       \<lparr>Rice = Num 0, Sizzling = Num 0, Party = Num 0, Drink = Num 0,
                        Cafe = Num 0, Milk = Num 0, Frappe = Num 0\<rparr>,
                     d_hourlyStats = Map.empty, d_topProducts = []\<rparr>, w)
           | Some s \<Rightarrow>
               let uniqueProducts = Num (int (length (topProducts s))) in
               (Inr \<lparr>d_totalOrders = totalOrders s, d_totalProducts = uniqueProducts,
                     d_totalStocks = itemsSold s, d_ordersToday = ordersToday s,
                     d_itemsSoldToday = itemsSoldToday s, d_dineInToday = dineInOrders s,
                     d_takeoutToday = takeoutOrders s, d_categoryStats = categoryStats s,
                     d_hourlyStats = hourlyStats s, d_topProducts = topProducts s\<rparr>, w))"

section \<open>The handler of \<open>POST /api/orders\<close>\<close>

datatype response =
    Rejected string  \<comment> \<open>status 400, \<open>success: false\<close>, the message\<close>
  | Accepted nat     \<comment> \<open>\<open>success: true\<close> with the saved order's id\<close>
  | Failed error     \<comment> \<open>status 500, \<open>success: false\<close>\<close>

text \<open>\<open>if (!orderData.type) orderData.type = "Dine In"\<close>: the payload object itself is
  changed.\<close>

definition default_type :: "orderData \<Rightarrow> orderData" where
  "default_type od = (if \<not> truthy_str (otype od) then od\<lparr>otype := Some ''Dine In''\<rparr> else od)"

text \<open>The items of the order document: a copy of the payload's items with the defaults
  filled in. The payload's own items are not touched.\<close>

definition order_item_of :: "item \<Rightarrow> order_item" where
  "order_item_of it =
     \<lparr>oi_name = js_or_str (name it) ''Unknown Item'',
      oi_price = js_or (price it) (Num 0),
      oi_quantity = js_or (quantity it) (Num 1),
      oi_image = js_or_str (image it) ''default_food.jpg''\<rparr>"

text \<open>\<open>new Order({...})\<close>; the id of the saved document is modelled as its position in
  the collection. \<open>status\<close>, \<open>paymentStatus\<close> and \<open>date\<close> are not paths of \<open>orderSchema\<close> and
  are left out.\<close>

definition make_order :: "nat \<Rightarrow> orderData \<Rightarrow> item list \<Rightarrow> order_doc" where
  "make_order oid od its =
     \<lparr>o_id = oid,
      o_items = map order_item_of its,
      o_subtotal = js_or (subtotal od) (Num 0),
      o_tax = js_or (tax od) (Num 0),
      o_total = total od,
      o_type = otype od,
      o_customer_name =
        js_or_str (case customer od of None \<Rightarrow> None | Some cu \<Rightarrow> cname cu) ''Guest'',
      o_customer_phone =
        js_or_str (case customer od of None \<Rightarrow> None | Some cu \<Rightarrow> phone cu) ''N/A''\<rparr>"

text \<open>The state after \<open>order.save()\<close> and the \<open>console.log\<close> that follows it.\<close>

definition order_saved :: "order_doc \<Rightarrow> world \<Rightarrow> world" where
  "order_saved order w =
     w\<lparr>orders := orders w @ [order], console := console w @ [OrderSaved (o_id order)]\<rparr>"

text \<open>The handler. The test \<open>Stats && typeof Stats.updateStats === 'function'\<close> holds
  for the model exported by the repository, so \<open>updateStats\<close> is always called.\<close>

definition post_orders :: "faults \<Rightarrow> clock \<Rightarrow> orderData \<Rightarrow> world \<Rightarrow> response \<times> world" where
  "post_orders f c body w =
     (case items body of
        None \<Rightarrow> (Rejected ''No items in order'', w)
      | Some its \<Rightarrow>
          if its = [] then (Rejected ''No items in order'', w)
          else if \<not> truthy (total body) then (Rejected ''Total amount is required'', w)
          else
            let od = default_type body;
                order = make_order (length (orders w)) od its
            in if order_save_fails f
               then (Failed PersistenceError,
                     w\<lparr>console := console w @ [OrderCreationError PersistenceError]\<rparr>)
               else
                 let w1 = order_saved order w
                 in (case updateStats f c od w1 of
                       Inl statsError \<Rightarrow>
                         (Accepted (o_id order),
                          w1\<lparr>console := console w1 @ [StatsUpdateError statsError]\<rparr>)
                     | Inr (s, w2) \<Rightarrow> (Accepted (o_id order), w2)))"

section \<open>Predicates of the specification\<close>

text \<open>A valid line item has a name and a positive integer quantity; a valid order
  payload has a non-empty list of valid items.\<close>

definition valid_item :: "item \<Rightarrow> bool" where
  "valid_item it = (name it \<noteq> None \<and> positive (quantity it))"

definition valid_payload :: "orderData \<Rightarrow> bool" where
  "valid_payload od =
     (case items od of None \<Rightarrow> False | Some its \<Rightarrow> its \<noteq> [] \<and> list_all valid_item its)"

text \<open>The integer held by a Number (\<open>0\<close> when it holds none), and the sum of the item
  quantities of a payload.\<close>

fun num_of :: "jsnum \<Rightarrow> int" where
  "num_of (Num n) = n"
| "num_of _ = 0"

definition total_quantity :: "item list \<Rightarrow> int" where
  "total_quantity its = sum_list (map (\<lambda>it. num_of (quantity it)) its)"

fun is_num :: "jsnum \<Rightarrow> bool" where
  "is_num (Num n) = True"
| "is_num _ = False"

text \<open>Every entry of a product list has an integer quantity.\<close>

definition numeric :: "product list \<Rightarrow> bool" where
  "numeric ps = list_all (\<lambda>p. is_num (pquantity p)) ps"

text \<open>\<open>a\<close> may stand before \<open>b\<close> in a list sorted descending by quantity.\<close>

fun quantity_ge :: "jsnum \<Rightarrow> jsnum \<Rightarrow> bool" where
  "quantity_ge (Num a) (Num b) = (b \<le> a)"
| "quantity_ge _ _ = False"

definition sorted_desc :: "product list \<Rightarrow> bool" where
  "sorted_desc ps = sorted_wrt (\<lambda>a b. quantity_ge (pquantity a) (pquantity b)) ps"

text \<open>Every \<open>Number\<close> path of a record holds an integer (an hour of \<open>hourlyStats\<close> may be
  absent). The records that \<open>updateStats\<close> stores for valid payloads are of this kind.\<close>

definition integral_buckets :: "categoryStats \<Rightarrow> bool" where
  "integral_buckets cs =
     (is_num (Rice cs) \<and> is_num (Sizzling cs) \<and> is_num (Party cs) \<and> is_num (Drink cs) \<and>
      is_num (Cafe cs) \<and> is_num (Milk cs) \<and> is_num (Frappe cs))"

definition integral_hours :: "(nat \<rightharpoonup> jsnum) \<Rightarrow> bool" where
  "integral_hours hs =
     list_all (\<lambda>h. case hs h of None \<Rightarrow> True | Some v \<Rightarrow> is_num v) [0..<24]"

definition integral :: "stats \<Rightarrow> bool" where
  "integral s =
     (is_num (totalOrders s) \<and> is_num (ordersToday s) \<and>
      is_num (itemsSold s) \<and> is_num (itemsSoldToday s) \<and>
      is_num (dineInOrders s) \<and> is_num (takeoutOrders s) \<and>
      integral_buckets (categoryStats s) \<and> numeric (topProducts s) \<and>
      integral_hours (hourlyStats s))"

text \<open>The classification as the specification words it (section 4.1, step 8): an ordered
  list of keyword rules on the lower-cased name, of which the first that matches names the
  bucket; the item's quantity is added to that bucket, or to none.\<close>

datatype bucket = RiceB | SizzlingB | PartyB | DrinkB | CafeB | MilkB | FrappeB

definition contains_any :: "string \<Rightarrow> string list \<Rightarrow> bool" where
  "contains_any n ks = list_ex (str_includes n) ks"

definition spec_bucket :: "string \<Rightarrow> bucket option" where
  "spec_bucket n =
     (if contains_any n [''bulgogi'', ''lechon'', ''chicken'', ''adobo'', ''shanghai'', ''fish'',
           ''dory'', ''pork'']
      then Some RiceB
      else if contains_any n [''sizzling'', ''sisig'', ''liempo'', ''porkchop'']
      then Some SizzlingB
      else if contains_any n [''pancit'', ''spaghetti'', ''party'']
      then Some PartyB
      else if contains_any n [''lemonade'', ''soda''] \<or>
              (str_includes n ''red tea'' \<and> \<not> str_includes n ''milk'')
      then Some DrinkB
      else if contains_any n [''cafe'', ''americano'', ''latte'', ''macchiato'', ''coffee'']
      then Some CafeB
      else if contains_any n [''milk tea'', ''matcha green tea'']
      then Some MilkB
      else if contains_any n [''frappe'', ''cookies & cream'']
      then Some FrappeB
      else None)"

fun add_to_bucket :: "bucket option \<Rightarrow> jsnum \<Rightarrow> categoryStats \<Rightarrow> categoryStats" where
  "add_to_bucket None q cs = cs"
| "add_to_bucket (Some RiceB) q cs = cs\<lparr>Rice := jadd (Rice cs) q\<rparr>"
| "add_to_bucket (Some SizzlingB) q cs = cs\<lparr>Sizzling := jadd (Sizzling cs) q\<rparr>"
| "add_to_bucket (Some PartyB) q cs = cs\<lparr>Party := jadd (Party cs) q\<rparr>"
| "add_to_bucket (Some DrinkB) q cs = cs\<lparr>Drink := jadd (Drink cs) q\<rparr>"
| "add_to_bucket (Some CafeB) q cs = cs\<lparr>Cafe := jadd (Cafe cs) q\<rparr>"
| "add_to_bucket (Some MilkB) q cs = cs\<lparr>Milk := jadd (Milk cs) q\<rparr>"
| "add_to_bucket (Some FrappeB) q cs = cs\<lparr>Frappe := jadd (Frappe cs) q\<rparr>"

text \<open>The record that an update starts from: today's, or the new one.\<close>

definition base_stats :: "clock \<Rightarrow> world \<Rightarrow> stats" where
  "base_stats c w =
     (case statsdb w (today c) of
        Some s \<Rightarrow> s
      | None \<Rightarrow> new_stats c (statsdb w (today c - 1)))"

section \<open>Example inputs and observations\<close>

definition empty_world :: world where
  "empty_world = \<lparr>orders = [], statsdb = Map.empty, console = []\<rparr>"

definition example_clock :: clock where
  "example_clock = \<lparr>today = 100, hour = 9, now = 8673000\<rparr>"

definition example_items :: "item list" where
  "example_items =
     [\<lparr>name = Some ''Cafe Latte Tall'', price = Num 120, quantity = Num 2, image = None\<rparr>,
      \<lparr>name = Some ''Plain Rice'', price = Num 20, quantity = Num 1, image = None\<rparr>]"

definition example_order :: orderData where
  "example_order =
     \<lparr>items = Some example_items, subtotal = Num 260, tax = Num 0, total = Num 260,
      otype = Some ''Dine In'', customer = None\<rparr>"

definition yesterday_stats :: stats where
  "yesterday_stats =
     \<lparr>date = 99, totalOrders = Num 5, ordersToday = Num 2, itemsSold = Num 12,
      itemsSoldToday = Num 4, dineInOrders = Num 3, takeoutOrders = Num 2,
      categoryStats = zero_categoryStats\<lparr>Rice := Num 7, Cafe := Num 5\<rparr>,
      topProducts = [\<lparr>pname = Some ''Plain Rice'', pquantity = Num 7\<rparr>,
                     \<lparr>pname = Some ''Cafe Latte Tall'', pquantity = Num 5\<rparr>],
      hourlyStats = default_hourlyStats(9 \<mapsto> Num 3, 10 \<mapsto> Num 2),
      lastUpdated = 8600000\<rparr>"

definition yesterday_world :: world where
  "yesterday_world = \<lparr>orders = [], statsdb = [99 \<mapsto> yesterday_stats], console = []\<rparr>"

text \<open>The counter of hour \<open>h\<close> in the record that an update returns.\<close>

definition hourly_after :: "faults \<Rightarrow> clock \<Rightarrow> orderData \<Rightarrow> world \<Rightarrow> nat \<Rightarrow> jsnum option" where
  "hourly_after f c od w h =
     (case updateStats f c od w of Inl e \<Rightarrow> None | Inr (s, w') \<Rightarrow> hourlyStats s h)"

text \<open>An order of twelve products, one of each.\<close>

definition one_of :: "string \<Rightarrow> item" where
  "one_of n = \<lparr>name = Some n, price = Num 10, quantity = Num 1, image = None\<rparr>"

definition twelve_items :: "item list" where
  "twelve_items = map one_of [''a'', ''b'', ''c'', ''d'', ''e'', ''f'', ''g'', ''h'', ''i'', ''j'',
     ''k'', ''l'']"

definition twelve_order :: orderData where
  "twelve_order =
     \<lparr>items = Some twelve_items, subtotal = Num 120, tax = Num 0, total = Num 120,
      otype = Some ''Take Out'', customer = None\<rparr>"

text \<open>The storage fails at the first \<open>findOne\<close> of \<open>updateStats\<close>.\<close>

definition stats_store_down :: faults where
  "stats_store_down = no_faults\<lparr>find_today_fails := True\<rparr>"



text \<open>An order whose only item has no \<open>quantity\<close> field.\<close>

definition no_quantity_items :: "item list" where
  "no_quantity_items =
     [\<lparr>name = Some ''Plain Rice'', price = Num 20, quantity = Undefined, image = None\<rparr>]"

definition no_quantity_order :: orderData where
  "no_quantity_order =
     \<lparr>items = Some no_quantity_items, subtotal = Num 20, tax = Num 0, total = Num 20,
      otype = Some ''Dine In'', customer = None\<rparr>"



text \<open>An order of the sisig dish among the items of the example order.\<close>

definition sisig_item :: item where
  "sisig_item =
     \<lparr>name = Some ''Sizzling Pork Sisig'', price = Num 150, quantity = Num 2, image = None\<rparr>"

definition sisig_order :: orderData where
  "sisig_order = example_order\<lparr>items := Some (example_items @ [sisig_item])\<rparr>"

text \<open>The quantity that a product list shows for a name, and the quantity of that name
  in one order.\<close>

definition quantity_of :: "product list \<Rightarrow> string option \<Rightarrow> jsnum option" where
  "quantity_of ps k = map_of (map (\<lambda>p. (pname p, pquantity p)) ps) k"

definition ordered_quantity :: "string option \<Rightarrow> item list \<Rightarrow> int" where
  "ordered_quantity k its =
     sum_list (map (\<lambda>it. num_of (quantity it)) (filter (\<lambda>it. name it = k) its))"

text \<open>The state that an update leaves: the one it was given when it throws.\<close>

definition world_of :: "error + (stats \<times> world) \<Rightarrow> world \<Rightarrow> world" where
  "world_of r w = (case r of Inl e \<Rightarrow> w | Inr (s, w') \<Rightarrow> w')"

text \<open>A day whose record lists ten products, five sold of each, and two orders of an
  eleventh product.\<close>

definition five_of :: "string \<Rightarrow> product" where
  "five_of n = \<lparr>pname = Some n, pquantity = Num 5\<rparr>"

definition ten_products :: "product list" where
  "ten_products =
     map five_of [''a'', ''b'', ''c'', ''d'', ''e'', ''f'', ''g'', ''h'', ''i'', ''j'']"

definition full_stats :: stats where
  "full_stats =
     \<lparr>date = 100, totalOrders = Num 20, ordersToday = Num 10, itemsSold = Num 50,
      itemsSoldToday = Num 50, dineInOrders = Num 10, takeoutOrders = Num 10,
      categoryStats = zero_categoryStats, topProducts = ten_products,
      hourlyStats = default_hourlyStats(8 \<mapsto> Num 10), lastUpdated = 8670000\<rparr>"

definition full_world :: world where
  "full_world = \<lparr>orders = [], statsdb = [100 \<mapsto> full_stats], console = []\<rparr>"

definition k_item :: "int \<Rightarrow> item" where
  "k_item q = \<lparr>name = Some ''k'', price = Num 10, quantity = Num q, image = None\<rparr>"

definition k_order :: "int \<Rightarrow> orderData" where
  "k_order q =
     \<lparr>items = Some [k_item q],
      subtotal = Num 10, tax = Num 0, total = Num 10, otype = Some ''Dine In'',
      customer = None\<rparr>"

definition after_first :: world where
  "after_first = world_of (updateStats no_faults example_clock (k_order 1) full_world) full_world"

section \<open>Properties of \<open>updateStats\<close>\<close>

lemma foldl_jadd_valid:
  "list_all valid_item its \<Longrightarrow>
   foldl (\<lambda>sum it. jadd sum (quantity it)) (Num a) its = Num (a + total_quantity its)"
proof (induction its arbitrary: a)
  case Nil
  then show ?case by (simp add: total_quantity_def)
next
  case (Cons it its)
  from Cons.prems have v: "valid_item it" and vs: "list_all valid_item its" by simp_all
  from v obtain q where q: "quantity it = Num q"
    by (cases "quantity it") (simp_all add: valid_item_def)
  show ?case using Cons.IH [OF vs, of "a + q"] q
    by (simp add: total_quantity_def)
qed

lemma itemsInOrder_valid:
  "list_all valid_item its \<Longrightarrow> itemsInOrder its = Num (total_quantity its)"
  using foldl_jadd_valid [of its 0] by (simp add: itemsInOrder_def)

lemma categorize_named:
  assumes "name it \<noteq> None" shows "\<exists>cs'. categorize cs it = Inr cs'"
proof (cases "name it")
  case None
  with assms show ?thesis by simp
next
  case (Some n)
  show ?thesis unfolding categorize_def Let_def
    by (simp only: Some option.case) (rule exI, rule refl)
qed

lemma categorize_all_named:
  "list_all (\<lambda>it. name it \<noteq> None) its \<Longrightarrow> \<exists>cs'. categorize_all cs its = Inr cs'"
proof (induction its arbitrary: cs)
  case Nil
  then show ?case by simp
next
  case (Cons it its)
  then obtain cs1 where "categorize cs it = Inr cs1"
    using categorize_named [of it cs] by auto
  with Cons show ?case by simp
qed

lemma valid_items_named: "list_all valid_item its \<Longrightarrow> list_all (\<lambda>it. name it \<noteq> None) its"
  by (induction its) (simp_all add: valid_item_def)

lemma count_type_fields [simp]:
  "totalOrders (count_type t s) = totalOrders s"
  "ordersToday (count_type t s) = ordersToday s"
  "itemsSold (count_type t s) = itemsSold s"
  "itemsSoldToday (count_type t s) = itemsSoldToday s"
  "categoryStats (count_type t s) = categoryStats s"
  "topProducts (count_type t s) = topProducts s"
  "hourlyStats (count_type t s) = hourlyStats s"
  by (simp_all add: count_type_def)

text \<open>The shape of a successful update.\<close>

lemma apply_order_named:
  assumes "items od = Some its" and "list_all (\<lambda>it. name it \<noteq> None) its"
  shows "\<exists>cs. categorize_all (categoryStats s) its = Inr cs \<and>
     apply_order c od s = Inr
       ((count_type (otype od) s)
          \<lparr>totalOrders := jadd (totalOrders s) (Num 1),
           ordersToday := jadd (ordersToday s) (Num 1),
           itemsSold := jadd (itemsSold s) (itemsInOrder its),
           itemsSoldToday := jadd (itemsSoldToday s) (itemsInOrder its),
           hourlyStats := count_hour (hour c) (hourlyStats s),
           categoryStats := cs,
           topProducts := take 10 (js_sort by_quantity_desc (upsert_all (topProducts s) its)),
           lastUpdated := now c\<rparr>)"
proof -
  obtain cs where cs: "categorize_all (categoryStats s) its = Inr cs"
    using categorize_all_named [OF assms(2)] by blast
  show ?thesis
    using cs assms(1) by (simp add: apply_order_def Let_def count_type_def)
qed

lemma load_stats_no_faults: "load_stats no_faults c w = Inr (base_stats c w)"
  by (simp add: load_stats_def no_faults_def base_stats_def split: option.splits)

section \<open>The top products list\<close>

lemma set_js_insert: "set (js_insert cmp x ys) = insert x (set ys)"
  by (induction ys) auto

lemma set_js_sort: "set (js_sort cmp xs) = set xs"
  by (induction xs) (simp_all add: js_sort_def set_js_insert)

lemma numeric_js_sort: "numeric (js_sort cmp xs) = numeric xs"
  by (simp add: numeric_def list_all_iff set_js_sort)

lemma numeric_take: "numeric ps \<Longrightarrow> numeric (take n ps)"
  by (auto simp: numeric_def list_all_iff dest: in_set_takeD)

lemma numeric_upsert: "numeric ps \<Longrightarrow> is_num (quantity it) \<Longrightarrow> numeric (upsert ps it)"
proof (induction ps)
  case Nil
  then show ?case by (simp add: numeric_def)
next
  case (Cons p ps)
  then show ?case
    by (cases "pquantity p"; cases "quantity it") (simp_all add: numeric_def)
qed

lemma valid_item_num: "valid_item it \<Longrightarrow> is_num (quantity it)"
  by (cases "quantity it") (simp_all add: valid_item_def)

lemma numeric_upsert_all:
  "numeric ps \<Longrightarrow> list_all valid_item its \<Longrightarrow> numeric (upsert_all ps its)"
  unfolding upsert_all_def
  by (induction its arbitrary: ps) (simp_all add: numeric_upsert valid_item_num)

lemma positive_by_quantity_desc:
  "is_num (pquantity x) \<Longrightarrow> is_num (pquantity y) \<Longrightarrow>
   positive (by_quantity_desc x y) = (\<not> quantity_ge (pquantity x) (pquantity y))"
  by (cases "pquantity x"; cases "pquantity y") (auto simp: by_quantity_desc_def)

lemma quantity_ge_trans:
  "quantity_ge a b \<Longrightarrow> quantity_ge b c \<Longrightarrow> quantity_ge a c"
  by (cases a; cases b; cases c) simp_all

lemma quantity_ge_total:
  "is_num a \<Longrightarrow> is_num b \<Longrightarrow> \<not> quantity_ge a b \<Longrightarrow> quantity_ge b a"
  by (cases a; cases b) simp_all

lemma sorted_desc_js_insert:
  "numeric (x # ys) \<Longrightarrow> sorted_desc ys \<Longrightarrow> sorted_desc (js_insert by_quantity_desc x ys)"
proof (induction ys)
  case Nil
  then show ?case by (simp add: sorted_desc_def)
next
  case (Cons y ys)
  from Cons.prems have nx: "is_num (pquantity x)" and ny: "is_num (pquantity y)"
    and nys: "numeric (x # ys)" by (simp_all add: numeric_def)
  from Cons.prems have sys: "sorted_desc ys"
    and yall: "\<forall>z\<in>set ys. quantity_ge (pquantity y) (pquantity z)"
    by (simp_all add: sorted_desc_def)
  show ?case
  proof (cases "quantity_ge (pquantity x) (pquantity y)")
    case True
    with yall have "\<forall>z\<in>set ys. quantity_ge (pquantity x) (pquantity z)"
      by (blast intro: quantity_ge_trans)
    with True Cons.prems nx ny show ?thesis
      by (simp add: positive_by_quantity_desc sorted_desc_def)
  next
    case False
    then have yx: "quantity_ge (pquantity y) (pquantity x)"
      using nx ny by (rule quantity_ge_total [rotated 2])
    have "sorted_desc (js_insert by_quantity_desc x ys)"
      using Cons.IH [OF nys sys] .
    with False yx yall nx ny show ?thesis
      by (simp add: positive_by_quantity_desc sorted_desc_def set_js_insert)
  qed
qed

lemma sorted_desc_js_sort: "numeric xs \<Longrightarrow> sorted_desc (js_sort by_quantity_desc xs)"
proof (induction xs)
  case Nil
  then show ?case by (simp add: js_sort_def sorted_desc_def)
next
  case (Cons x xs)
  then have "numeric xs" by (simp add: numeric_def)
  with Cons.IH have s: "sorted_desc (js_sort by_quantity_desc xs)" by simp
  have "numeric (x # js_sort by_quantity_desc xs)"
    using Cons.prems by (simp add: numeric_def list_all_iff set_js_sort)
  from sorted_desc_js_insert [OF this s] show ?case by (simp add: js_sort_def)
qed

lemma sorted_desc_take: "sorted_desc ps \<Longrightarrow> sorted_desc (take n ps)"
  by (simp add: sorted_desc_def)

lemma top_ten_invariant:
  assumes "numeric ps" and "list_all valid_item its"
  shows "length (take 10 (js_sort by_quantity_desc (upsert_all ps its))) \<le> 10"
    and "sorted_desc (take 10 (js_sort by_quantity_desc (upsert_all ps its)))"
    and "numeric (take 10 (js_sort by_quantity_desc (upsert_all ps its)))"
proof -
  have n: "numeric (upsert_all ps its)" using assms by (rule numeric_upsert_all)
  show "length (take 10 (js_sort by_quantity_desc (upsert_all ps its))) \<le> 10" by simp
  show "sorted_desc (take 10 (js_sort by_quantity_desc (upsert_all ps its)))"
    using n by (intro sorted_desc_take sorted_desc_js_sort)
  show "numeric (take 10 (js_sort by_quantity_desc (upsert_all ps its)))"
    using n by (intro numeric_take) (simp add: numeric_js_sort)
qed

section \<open>Classification of line items\<close>

lemma categorize_all_append:
  "categorize_all cs (xs @ ys) =
     (case categorize_all cs xs of Inl e \<Rightarrow> Inl e | Inr cs1 \<Rightarrow> categorize_all cs1 ys)"
  by (induction xs arbitrary: cs) (simp_all split: sum.split)

lemma categorize_sisig:
  "categorize cs (it\<lparr>name := Some ''Sizzling Pork Sisig''\<rparr>) =
     Inr (cs\<lparr>Rice := jadd (Rice cs) (quantity it)\<rparr>)"
  by (simp add: categorize_def toLowerCase_def lower_char_def)

text \<open>The \<open>if\<close> chain of the source refines the classification of the specification.\<close>

lemma categorize_spec_bucket:
  assumes "name it = Some n"
  shows "categorize cs it = Inr (add_to_bucket (spec_bucket (toLowerCase n)) (quantity it) cs)"
  unfolding categorize_def Let_def
  by (simp only: assms option.case) (simp add: spec_bucket_def contains_any_def)

lemma jadd_commute: "jadd (jadd a x) y = jadd (jadd a y) x"
  by (cases a; cases x; cases y) simp_all

lemma add_to_bucket_commute:
  "add_to_bucket b p (add_to_bucket d q cs) = add_to_bucket d q (add_to_bucket b p cs)"
proof (cases b)
  case None
  then show ?thesis by simp
next
  case (Some b')
  show ?thesis
  proof (cases d)
    case None
    then show ?thesis by simp
  next
    case (Some d')
    show ?thesis unfolding \<open>b = Some b'\<close> \<open>d = Some d'\<close>
      by (cases b'; cases d') (simp_all add: jadd_commute)
  qed
qed

lemma add_to_bucket_cases:
  "add_to_bucket b q cs \<in>
     {cs, cs\<lparr>Rice := jadd (Rice cs) q\<rparr>,
      cs\<lparr>Sizzling := jadd (Sizzling cs) q\<rparr>,
      cs\<lparr>Party := jadd (Party cs) q\<rparr>,
      cs\<lparr>Drink := jadd (Drink cs) q\<rparr>,
      cs\<lparr>Cafe := jadd (Cafe cs) q\<rparr>,
      cs\<lparr>Milk := jadd (Milk cs) q\<rparr>,
      cs\<lparr>Frappe := jadd (Frappe cs) q\<rparr>}"
proof (cases b)
  case None
  then show ?thesis by simp
next
  case (Some b')
  then show ?thesis by (cases b') simp_all
qed

lemma is_num_jadd: "is_num a \<Longrightarrow> is_num b \<Longrightarrow> is_num (jadd a b)"
  by (cases a; cases b) simp_all

lemma integral_add_to_bucket:
  assumes "integral_buckets cs" and "is_num q"
  shows "integral_buckets (add_to_bucket b q cs)"
proof (cases b)
  case None
  with assms show ?thesis by simp
next
  case (Some b')
  with assms show ?thesis
    by (cases b') (simp_all add: integral_buckets_def is_num_jadd)
qed

text \<open>The buckets after a list of named items: each item's quantity added to its bucket.\<close>

lemma categorize_all_fold:
  "list_all (\<lambda>it. name it \<noteq> None) its \<Longrightarrow>
   categorize_all cs its =
     Inr (foldl (\<lambda>cs it. add_to_bucket (case name it of None \<Rightarrow> None
                                           | Some n \<Rightarrow> spec_bucket (toLowerCase n))
                             (quantity it) cs) cs its)"
proof (induction its arbitrary: cs)
  case Nil
  then show ?case by simp
next
  case (Cons it its)
  then obtain n where n: "name it = Some n" by auto
  from Cons show ?case by (simp add: categorize_spec_bucket [OF n] n)
qed

lemma foldl_add_to_bucket_shift:
  "foldl (\<lambda>cs it. add_to_bucket (g it) (quantity it) cs) (add_to_bucket b q cs) its =
   add_to_bucket b q (foldl (\<lambda>cs it. add_to_bucket (g it) (quantity it) cs) cs its)"
  by (induction its arbitrary: cs) (simp_all add: add_to_bucket_commute)

text \<open>An item anywhere in the payload adds its quantity to its bucket, on top of what the
  other items add.\<close>

lemma categorize_all_item:
  assumes "list_all (\<lambda>it. name it \<noteq> None) (before @ x # after)" and "name x = Some n"
  shows "\<exists>cs0. categorize_all cs (before @ after) = Inr cs0 \<and>
           categorize_all cs (before @ x # after) =
             Inr (add_to_bucket (spec_bucket (toLowerCase n)) (quantity x) cs0)"
proof -
  from assms(1) have o: "list_all (\<lambda>it. name it \<noteq> None) (before @ after)" by simp
  show ?thesis
    by (simp add: categorize_all_fold [OF assms(1)] categorize_all_fold [OF o] assms(2)
          foldl_add_to_bucket_shift)
qed

lemma integral_categorize_all:
  assumes "list_all valid_item its" and "integral_buckets cs"
    and "categorize_all cs its = Inr cs'"
  shows "integral_buckets cs'"
  using assms
proof (induction its arbitrary: cs)
  case Nil
  then show ?case by simp
next
  case (Cons it its)
  from Cons.prems(1) have vi: "valid_item it" and v: "list_all valid_item its" by simp_all
  from vi obtain n where n: "name it = Some n" by (auto simp: valid_item_def)
  from vi have q: "is_num (quantity it)" by (rule valid_item_num)
  let ?c1 = "add_to_bucket (spec_bucket (toLowerCase n)) (quantity it) cs"
  have "integral_buckets ?c1" using Cons.prems(2) q by (rule integral_add_to_bucket)
  moreover have "categorize_all ?c1 its = Inr cs'"
    using Cons.prems(3) by (simp add: categorize_spec_bucket [OF n])
  ultimately show ?case using Cons.IH [OF v] by blast
qed

section \<open>Records of integers\<close>

lemma castable_num: "is_num v \<Longrightarrow> castable v"
  by (cases v) simp_all

lemma integral_validate: "integral s \<Longrightarrow> validate_stats s"
  by (auto simp: integral_def validate_stats_def integral_buckets_def numeric_def
        integral_hours_def list_all_iff castable_num split: option.splits)

lemma integral_hours_default: "integral_hours default_hourlyStats"
  by (simp add: integral_hours_def default_hourlyStats_def list_all_iff)

lemma is_num_count: "is_num (jadd (js_or v (Num 0)) (Num 1))"
  by (cases v) (simp_all add: js_or_def)

lemma integral_hours_count_hour: "integral_hours hs \<Longrightarrow> integral_hours (count_hour h hs)"
  by (simp add: integral_hours_def count_hour_def list_all_iff is_num_count)

lemma integral_new_stats:
  "(case y of None \<Rightarrow> True | Some s \<Rightarrow> integral s) \<Longrightarrow> integral (new_stats c y)"
  by (cases y)
     (simp_all add: integral_def new_stats_def integral_hours_default zero_categoryStats_def
        integral_buckets_def numeric_def)

lemma integral_count_type: "integral s \<Longrightarrow> integral (count_type t s)"
  by (simp add: integral_def count_type_def is_num_jadd)

text \<open>A valid payload turns a record of integers into a record of integers.\<close>

lemma apply_order_integral:
  assumes "items od = Some its" and "list_all valid_item its" and "integral s"
    and "apply_order c od s = Inr s'"
  shows "integral s'"
proof -
  from apply_order_named [OF assms(1) valid_items_named [OF assms(2)], of s c] assms(4)
  obtain cs where cs: "categorize_all (categoryStats s) its = Inr cs"
    and s': "s' = (count_type (otype od) s)
          \<lparr>totalOrders := jadd (totalOrders s) (Num 1),
           ordersToday := jadd (ordersToday s) (Num 1),
           itemsSold := jadd (itemsSold s) (itemsInOrder its),
           itemsSoldToday := jadd (itemsSoldToday s) (itemsInOrder its),
           hourlyStats := count_hour (hour c) (hourlyStats s),
           categoryStats := cs,
           topProducts := take 10 (js_sort by_quantity_desc (upsert_all (topProducts s) its)),
           lastUpdated := now c\<rparr>" by auto
  have b: "integral_buckets cs"
    using assms(2) _ cs by (rule integral_categorize_all) (use assms(3) in \<open>simp add: integral_def\<close>)
  have t: "numeric (take 10 (js_sort by_quantity_desc (upsert_all (topProducts s) its)))"
    using assms(3) by (intro top_ten_invariant(3) assms(2)) (simp add: integral_def)
  have h: "integral_hours (count_hour (hour c) (hourlyStats s))"
    using assms(3) by (intro integral_hours_count_hour) (simp add: integral_def)
  from integral_count_type [OF assms(3), of "otype od"]
  have ct: "is_num (dineInOrders (count_type (otype od) s))"
    "is_num (takeoutOrders (count_type (otype od) s))" by (simp_all add: integral_def)
  show ?thesis
    using assms(3) b t h ct
    by (simp add: s' integral_def is_num_jadd itemsInOrder_valid [OF assms(2)])
qed

lemma updateStats_no_faults:
  "updateStats no_faults c od w =
     (case apply_order c od (base_stats c w) of
        Inl e \<Rightarrow> Inl e
      | Inr s' \<Rightarrow>
          if validate_stats s' then Inr (s', w\<lparr>statsdb := (statsdb w)(today c \<mapsto> s')\<rparr>)
          else Inl ValidationError)"
proof -
  have "stats_save_fails no_faults = False" by (simp add: no_faults_def)
  then show ?thesis by (simp add: updateStats_def load_stats_no_faults split: sum.split)
qed

text \<open>The update of a record of integers with valid items.\<close>

lemma updateStats_valid:
  assumes "list_all valid_item its" and "items od = Some its"
    and "integral (base_stats c w)"
  shows "\<exists>s'. updateStats no_faults c od w = Inr (s', w\<lparr>statsdb := (statsdb w)(today c \<mapsto> s')\<rparr>) \<and>
           integral s' \<and>
           totalOrders s' = jadd (totalOrders (base_stats c w)) (Num 1) \<and>
           ordersToday s' = jadd (ordersToday (base_stats c w)) (Num 1) \<and>
           itemsSold s' = jadd (itemsSold (base_stats c w)) (Num (total_quantity its)) \<and>
           itemsSoldToday s' = jadd (itemsSoldToday (base_stats c w)) (Num (total_quantity its)) \<and>
           dineInOrders s' = dineInOrders (count_type (otype od) (base_stats c w)) \<and>
           takeoutOrders s' = takeoutOrders (count_type (otype od) (base_stats c w)) \<and>
           hourlyStats s' = count_hour (hour c) (hourlyStats (base_stats c w)) \<and>
           categorize_all (categoryStats (base_stats c w)) its = Inr (categoryStats s') \<and>
           topProducts s' =
             take 10 (js_sort by_quantity_desc (upsert_all (topProducts (base_stats c w)) its))"
proof -
  note v = assms(1)
  from apply_order_named [OF assms(2) valid_items_named [OF v], of "base_stats c w" c]
  obtain cs s' where cs: "categorize_all (categoryStats (base_stats c w)) its = Inr cs"
    and ap: "apply_order c od (base_stats c w) = Inr s'"
    and s': "s' = (count_type (otype od) (base_stats c w))
          \<lparr>totalOrders := jadd (totalOrders (base_stats c w)) (Num 1),
           ordersToday := jadd (ordersToday (base_stats c w)) (Num 1),
           itemsSold := jadd (itemsSold (base_stats c w)) (itemsInOrder its),
           itemsSoldToday := jadd (itemsSoldToday (base_stats c w)) (itemsInOrder its),
           hourlyStats := count_hour (hour c) (hourlyStats (base_stats c w)),
           categoryStats := cs,
           topProducts :=
             take 10 (js_sort by_quantity_desc (upsert_all (topProducts (base_stats c w)) its)),
           lastUpdated := now c\<rparr>" by blast
  have i: "integral s'" using assms(2) v assms(3) ap by (rule apply_order_integral)
  then have "validate_stats s'" by (rule integral_validate)
  then have "updateStats no_faults c od w =
      Inr (s', w\<lparr>statsdb := (statsdb w)(today c \<mapsto> s')\<rparr>)"
    by (simp add: updateStats_no_faults ap)
  moreover have "totalOrders s' = jadd (totalOrders (base_stats c w)) (Num 1)"
    "ordersToday s' = jadd (ordersToday (base_stats c w)) (Num 1)"
    "itemsSold s' = jadd (itemsSold (base_stats c w)) (Num (total_quantity its))"
    "itemsSoldToday s' = jadd (itemsSoldToday (base_stats c w)) (Num (total_quantity its))"
    "dineInOrders s' = dineInOrders (count_type (otype od) (base_stats c w))"
    "takeoutOrders s' = takeoutOrders (count_type (otype od) (base_stats c w))"
    "hourlyStats s' = count_hour (hour c) (hourlyStats (base_stats c w))"
    "categorize_all (categoryStats (base_stats c w)) its = Inr (categoryStats s')"
    "topProducts s' =
       take 10 (js_sort by_quantity_desc (upsert_all (topProducts (base_stats c w)) its))"
    by (simp_all add: s' cs itemsInOrder_valid [OF v])
  ultimately show ?thesis using i by blast
qed

lemma valid_payload_items:
  "valid_payload od \<Longrightarrow> \<exists>its. items od = Some its \<and> its \<noteq> [] \<and> list_all valid_item its"
  by (auto simp: valid_payload_def split: option.splits)

text \<open>The example worlds hold records of integers.\<close>

lemma integral_yesterday_stats: "integral yesterday_stats"
  by (simp add: integral_def yesterday_stats_def integral_buckets_def zero_categoryStats_def
        numeric_def integral_hours_def list_all_iff default_hourlyStats_def)

lemma integral_full_stats: "integral full_stats"
  by (simp add: integral_def full_stats_def integral_buckets_def zero_categoryStats_def
        numeric_def ten_products_def five_of_def integral_hours_def list_all_iff
        default_hourlyStats_def)

lemma integral_base_examples:
  "integral (base_stats example_clock empty_world)"
  "integral (base_stats example_clock yesterday_world)"
  "integral (base_stats example_clock full_world)"
proof -
  show "integral (base_stats example_clock empty_world)"
    by (simp add: base_stats_def empty_world_def integral_new_stats)
  show "integral (base_stats example_clock yesterday_world)"
    by (simp add: base_stats_def yesterday_world_def example_clock_def integral_new_stats
          integral_yesterday_stats)
  show "integral (base_stats example_clock full_world)"
    by (simp add: base_stats_def full_world_def example_clock_def integral_full_stats)
qed

section \<open>The counters of an update\<close>

text \<open>
  C1: for a valid order payload, on a record of integers, one call of \<open>updateStats\<close>
  succeeds, stores the record under today's key, and in it \<open>totalOrders\<close> and \<open>ordersToday\<close>
  are one more than in the record the call started from, \<open>itemsSold\<close> and \<open>itemsSoldToday\<close>
  are more by exactly the sum of the payload's item quantities. The stored record is a
  record of integers again.
\<close>

theorem updateStats_counts_order:
  assumes "valid_payload od" and "items od = Some its"
    and "integral (base_stats c w)"
    and "totalOrders (base_stats c w) = Num a" and "ordersToday (base_stats c w) = Num b"
    and "itemsSold (base_stats c w) = Num x" and "itemsSoldToday (base_stats c w) = Num y"
  shows "\<exists>s' w'. updateStats no_faults c od w = Inr (s', w') \<and>
           statsdb w' (today c) = Some s' \<and>
           totalOrders s' = Num (a + 1) \<and> ordersToday s' = Num (b + 1) \<and>
           itemsSold s' = Num (x + total_quantity its) \<and>
           itemsSoldToday s' = Num (y + total_quantity its) \<and>
           integral s'"
proof -
  from assms(1,2) have v: "list_all valid_item its" by (simp add: valid_payload_def)
  from updateStats_valid [OF v assms(2,3)] obtain s' w'
    where "updateStats no_faults c od w = Inr (s', w')"
      and "statsdb w' (today c) = Some s'" and "integral s'"
      and "totalOrders s' = jadd (totalOrders (base_stats c w)) (Num 1)"
      and "ordersToday s' = jadd (ordersToday (base_stats c w)) (Num 1)"
      and "itemsSold s' = jadd (itemsSold (base_stats c w)) (Num (total_quantity its))"
      and "itemsSoldToday s' = jadd (itemsSoldToday (base_stats c w)) (Num (total_quantity its))"
    by fastforce
  with assms(4-7) show ?thesis by simp
qed

theorem updateStats_counts_order_witness:
  "valid_payload example_order \<and> items example_order = Some example_items \<and>
   integral (base_stats example_clock empty_world) \<and>
   total_quantity example_items = 3 \<and>
   (\<exists>s' w'. updateStats no_faults example_clock example_order empty_world = Inr (s', w') \<and>
           statsdb w' (today example_clock) = Some s' \<and>
           totalOrders s' = Num 1 \<and> ordersToday s' = Num 1 \<and>
           itemsSold s' = Num 3 \<and> itemsSoldToday s' = Num 3 \<and> integral s')"
  using updateStats_counts_order [of example_order example_items example_clock empty_world 0 0 0 0]
    integral_base_examples(1)
  by (simp add: valid_payload_def valid_item_def example_order_def example_items_def
        total_quantity_def base_stats_def empty_world_def new_stats_def)



section \<open>The hours of a new day\<close>

lemma count_hour_default:
  "count_hour h default_hourlyStats = default_hourlyStats(h \<mapsto> Num 1)"
  by (simp add: count_hour_def default_hourlyStats_def js_or_def)

lemma hourlyStats_of_new_record:
  assumes "valid_payload od" and "statsdb w (today c) = None"
    and "integral (base_stats c w)"
  shows "\<exists>s' w'. updateStats no_faults c od w = Inr (s', w') \<and>
           statsdb w' (today c) = Some s' \<and>
           hourlyStats s' = default_hourlyStats(hour c \<mapsto> Num 1) \<and>
           hourlyStats s' (hour c) = Some (Num 1)"
proof -
  from valid_payload_items [OF assms(1)] obtain its
    where its: "items od = Some its" and v: "list_all valid_item its" by blast
  have b: "hourlyStats (base_stats c w) = default_hourlyStats"
    using assms(2) by (simp add: base_stats_def new_stats_def)
  from updateStats_valid [OF v its assms(3)] obtain s' w'
    where "updateStats no_faults c od w = Inr (s', w')"
      and "statsdb w' (today c) = Some s'"
      and "hourlyStats s' = count_hour (hour c) (hourlyStats (base_stats c w))"
    by fastforce
  with b show ?thesis by (simp add: count_hour_default)
qed

text \<open>
  C4, as the code has it: \<open>hourlyStats\<close> is not carried forward. Whenever an update with a
  valid payload creates the record of a new day, with or without a record of the day
  before, the new record's \<open>hourlyStats\<close> starts from the schema default (every hour \<open>0\<close>),
  so that the stored record has \<open>1\<close> at the current hour and \<open>0\<close> at every other hour.
\<close>

theorem new_day_hourlyStats:
  assumes "valid_payload od" and "statsdb w (today c) = None"
    and "integral (base_stats c w)"
  shows "\<exists>s' w'. updateStats no_faults c od w = Inr (s', w') \<and>
           statsdb w' (today c) = Some s' \<and>
           hourlyStats s' = default_hourlyStats(hour c \<mapsto> Num 1) \<and>
           hourlyStats s' (hour c) = Some (Num 1)"
  using assms by (rule hourlyStats_of_new_record)

theorem new_day_hourlyStats_witness:
  "valid_payload example_order \<and> statsdb yesterday_world (today example_clock) = None \<and>
   integral (base_stats example_clock yesterday_world) \<and>
   (\<exists>s' w'. updateStats no_faults example_clock example_order yesterday_world = Inr (s', w') \<and>
           statsdb w' (today example_clock) = Some s' \<and>
           hourlyStats s' = default_hourlyStats(hour example_clock \<mapsto> Num 1) \<and>
           hourlyStats s' (hour example_clock) = Some (Num 1))"
  using new_day_hourlyStats [of example_order yesterday_world example_clock]
    integral_base_examples(2)
  by (simp add: valid_payload_def valid_item_def example_order_def example_items_def
        example_clock_def yesterday_world_def)

text \<open>
  C4 as stated fails: yesterday's record counts 3 orders at hour 9 and 2 at hour 10; the
  first update of today, at hour 9, yields 1 at hour 9 and 0 at hour 10.
\<close>

theorem hourlyStats_carry_forward_counterexample:
  "statsdb yesterday_world (today example_clock) = None \<and>
   statsdb yesterday_world (today example_clock - 1) = Some yesterday_stats \<and>
   hourlyStats yesterday_stats 9 = Some (Num 3) \<and>
   hourlyStats yesterday_stats 10 = Some (Num 2) \<and>
   hourly_after no_faults example_clock example_order yesterday_world 9 = Some (Num 1) \<and>
   hourly_after no_faults example_clock example_order yesterday_world 10 = Some (Num 0)"
proof -
  have v: "valid_payload example_order"
    by (simp add: valid_payload_def valid_item_def example_order_def example_items_def)
  have n: "statsdb yesterday_world (today example_clock) = None"
    by (simp add: yesterday_world_def example_clock_def)
  from hourlyStats_of_new_record [OF v n integral_base_examples(2)] obtain s' w'
    where "updateStats no_faults example_clock example_order yesterday_world = Inr (s', w')"
      and "hourlyStats s' = default_hourlyStats(hour example_clock \<mapsto> Num 1)" by blast
  then have "hourly_after no_faults example_clock example_order yesterday_world 9 = Some (Num 1)"
    "hourly_after no_faults example_clock example_order yesterday_world 10 = Some (Num 0)"
    by (simp_all add: hourly_after_def example_clock_def default_hourlyStats_def)
  then show ?thesis
    by (simp add: yesterday_world_def example_clock_def yesterday_stats_def)
qed

section \<open>The bound and the order of the top products\<close>

text \<open>
  C2: after an update with a valid payload, on a record of integers, the stored record's
  \<open>topProducts\<close> has at most 10 entries and is sorted descending by quantity, for any
  number of item names in the order; the stored record is a record of integers again, so
  the next update starts from such a record.
\<close>

theorem topProducts_bounded_sorted:
  assumes "valid_payload od" and "integral (base_stats c w)"
  shows "\<exists>s' w'. updateStats no_faults c od w = Inr (s', w') \<and>
           statsdb w' (today c) = Some s' \<and>
           length (topProducts s') \<le> 10 \<and> sorted_desc (topProducts s') \<and>
           numeric (topProducts s') \<and> integral s'"
proof -
  from valid_payload_items [OF assms(1)] obtain its
    where its: "items od = Some its" and v: "list_all valid_item its" by blast
  from assms(2) have n: "numeric (topProducts (base_stats c w))" by (simp add: integral_def)
  from updateStats_valid [OF v its assms(2)] obtain s' w'
    where "updateStats no_faults c od w = Inr (s', w')"
      and "statsdb w' (today c) = Some s'" and "integral s'"
      and "topProducts s' =
        take 10 (js_sort by_quantity_desc (upsert_all (topProducts (base_stats c w)) its))"
    by fastforce
  with top_ten_invariant [OF n v] show ?thesis by auto
qed

theorem topProducts_bounded_sorted_witness:
  "valid_payload twelve_order \<and>
   integral (base_stats example_clock yesterday_world) \<and>
   (\<exists>s' w'. updateStats no_faults example_clock twelve_order yesterday_world = Inr (s', w') \<and>
           statsdb w' (today example_clock) = Some s' \<and>
           length (topProducts s') \<le> 10 \<and> sorted_desc (topProducts s') \<and>
           numeric (topProducts s') \<and> integral s')"
  using topProducts_bounded_sorted [of twelve_order example_clock yesterday_world]
    integral_base_examples(2)
  by (simp add: valid_payload_def valid_item_def twelve_order_def twelve_items_def one_of_def)

section \<open>The bucket of a line item\<close>

lemma spec_bucket_sisig: "spec_bucket (toLowerCase ''Sizzling Pork Sisig'') = Some RiceB"
  by (simp add: spec_bucket_def contains_any_def toLowerCase_def lower_char_def)

text \<open>The buckets that an update stores, against those that the same update stores
  without one of the items.\<close>

lemma updateStats_item_bucket:
  assumes "valid_payload od" and "items od = Some (before @ x # after)"
    and "integral (base_stats c w)" and "name x = Some n"
  shows "\<exists>s' w' s0 w0.
           updateStats no_faults c od w = Inr (s', w') \<and>
           statsdb w' (today c) = Some s' \<and>
           updateStats no_faults c (od\<lparr>items := Some (before @ after)\<rparr>) w = Inr (s0, w0) \<and>
           categorize_all (categoryStats (base_stats c w)) (before @ after) =
             Inr (categoryStats s0) \<and>
           categoryStats s' =
             add_to_bucket (spec_bucket (toLowerCase n)) (quantity x) (categoryStats s0)"
proof -
  from assms(1,2) have v: "list_all valid_item (before @ x # after)"
    by (simp add: valid_payload_def)
  then have v0: "list_all valid_item (before @ after)" by simp
  have i0: "items (od\<lparr>items := Some (before @ after)\<rparr>) = Some (before @ after)" by simp
  from updateStats_valid [OF v assms(2,3)] obtain s' w'
    where u: "updateStats no_faults c od w = Inr (s', w')"
      and st: "statsdb w' (today c) = Some s'"
      and cs: "categorize_all (categoryStats (base_stats c w)) (before @ x # after) =
                 Inr (categoryStats s')"
    by fastforce
  from updateStats_valid [OF v0 i0 assms(3)] obtain s0 w0
    where u0: "updateStats no_faults c (od\<lparr>items := Some (before @ after)\<rparr>) w = Inr (s0, w0)"
      and cs0: "categorize_all (categoryStats (base_stats c w)) (before @ after) =
                 Inr (categoryStats s0)"
    by fastforce
  from categorize_all_item [OF valid_items_named [OF v] assms(4), of "categoryStats (base_stats c w)"]
    cs cs0
  have "categoryStats s' =
      add_to_bucket (spec_bucket (toLowerCase n)) (quantity x) (categoryStats s0)"
    by simp
  with u st u0 cs0 show ?thesis by blast
qed

text \<open>
  C5: take any update with a valid payload, on a record of integers, and any item \<open>x\<close> of
  the payload. Against the same update without \<open>x\<close>, the stored \<open>categoryStats\<close> differs in
  at most one bucket, to which the quantity of \<open>x\<close> is added. When \<open>x\<close> is named
  \<open>Sizzling Pork Sisig\<close> that bucket is Rice: its quantity is added to Rice, and Sizzling
  and every other bucket are what the other items make them. When \<open>x\<close> is the only item,
  these are the buckets of the record the update started from.
\<close>

theorem sisig_counts_as_Rice:
  assumes "valid_payload od" and "items od = Some (before @ x # after)"
    and "integral (base_stats c w)"
  shows "\<exists>s' w' s0 w0.
           updateStats no_faults c od w = Inr (s', w') \<and>
           statsdb w' (today c) = Some s' \<and>
           updateStats no_faults c (od\<lparr>items := Some (before @ after)\<rparr>) w = Inr (s0, w0) \<and>
           (before @ after = [] \<longrightarrow> categoryStats s0 = categoryStats (base_stats c w)) \<and>
           (name x = Some ''Sizzling Pork Sisig'' \<longrightarrow>
              categoryStats s' =
                (categoryStats s0)\<lparr>Rice := jadd (Rice (categoryStats s0)) (quantity x)\<rparr> \<and>
              Sizzling (categoryStats s') = Sizzling (categoryStats s0)) \<and>
           categoryStats s' \<in>
             {categoryStats s0,
              (categoryStats s0)\<lparr>Rice := jadd (Rice (categoryStats s0)) (quantity x)\<rparr>,
              (categoryStats s0)\<lparr>Sizzling := jadd (Sizzling (categoryStats s0)) (quantity x)\<rparr>,
              (categoryStats s0)\<lparr>Party := jadd (Party (categoryStats s0)) (quantity x)\<rparr>,
              (categoryStats s0)\<lparr>Drink := jadd (Drink (categoryStats s0)) (quantity x)\<rparr>,
              (categoryStats s0)\<lparr>Cafe := jadd (Cafe (categoryStats s0)) (quantity x)\<rparr>,
              (categoryStats s0)\<lparr>Milk := jadd (Milk (categoryStats s0)) (quantity x)\<rparr>,
              (categoryStats s0)\<lparr>Frappe := jadd (Frappe (categoryStats s0)) (quantity x)\<rparr>}"
proof -
  from assms(1,2) have "valid_item x" by (simp add: valid_payload_def)
  then obtain n where n: "name x = Some n" by (auto simp: valid_item_def)
  from updateStats_item_bucket [OF assms n] obtain s' w' s0 w0
    where u: "updateStats no_faults c od w = Inr (s', w')"
      and st: "statsdb w' (today c) = Some s'"
      and u0: "updateStats no_faults c (od\<lparr>items := Some (before @ after)\<rparr>) w = Inr (s0, w0)"
      and c0: "categorize_all (categoryStats (base_stats c w)) (before @ after) =
                 Inr (categoryStats s0)"
      and cs: "categoryStats s' =
                 add_to_bucket (spec_bucket (toLowerCase n)) (quantity x) (categoryStats s0)"
    by blast
  have e: "before @ after = [] \<longrightarrow> categoryStats s0 = categoryStats (base_stats c w)"
    using c0 by auto
  have r: "name x = Some ''Sizzling Pork Sisig'' \<longrightarrow>
      categoryStats s' =
        (categoryStats s0)\<lparr>Rice := jadd (Rice (categoryStats s0)) (quantity x)\<rparr> \<and>
      Sizzling (categoryStats s') = Sizzling (categoryStats s0)"
    using n cs by (auto simp: spec_bucket_sisig)
  show ?thesis
  proof (intro exI conjI)
    show "updateStats no_faults c od w = Inr (s', w')" by (rule u)
    show "statsdb w' (today c) = Some s'" by (rule st)
    show "updateStats no_faults c (od\<lparr>items := Some (before @ after)\<rparr>) w = Inr (s0, w0)"
      by (rule u0)
    show "before @ after = [] \<longrightarrow> categoryStats s0 = categoryStats (base_stats c w)"
      by (rule e)
    show "name x = Some ''Sizzling Pork Sisig'' \<longrightarrow>
      categoryStats s' =
        (categoryStats s0)\<lparr>Rice := jadd (Rice (categoryStats s0)) (quantity x)\<rparr> \<and>
      Sizzling (categoryStats s') = Sizzling (categoryStats s0)" by (rule r)
    show "categoryStats s' \<in>
             {categoryStats s0,
              (categoryStats s0)\<lparr>Rice := jadd (Rice (categoryStats s0)) (quantity x)\<rparr>,
              (categoryStats s0)\<lparr>Sizzling := jadd (Sizzling (categoryStats s0)) (quantity x)\<rparr>,
              (categoryStats s0)\<lparr>Party := jadd (Party (categoryStats s0)) (quantity x)\<rparr>,
              (categoryStats s0)\<lparr>Drink := jadd (Drink (categoryStats s0)) (quantity x)\<rparr>,
              (categoryStats s0)\<lparr>Cafe := jadd (Cafe (categoryStats s0)) (quantity x)\<rparr>,
              (categoryStats s0)\<lparr>Milk := jadd (Milk (categoryStats s0)) (quantity x)\<rparr>,
              (categoryStats s0)\<lparr>Frappe := jadd (Frappe (categoryStats s0)) (quantity x)\<rparr>}"
      unfolding cs by (rule add_to_bucket_cases)
  qed
qed

theorem sisig_counts_as_Rice_witness:
  "valid_payload sisig_order \<and> items sisig_order = Some (example_items @ sisig_item # []) \<and>
   integral (base_stats example_clock empty_world) \<and>
   name sisig_item = Some ''Sizzling Pork Sisig'' \<and> quantity sisig_item = Num 2 \<and>
   (\<exists>s' w' s0 w0.
      updateStats no_faults example_clock sisig_order empty_world = Inr (s', w') \<and>
      statsdb w' (today example_clock) = Some s' \<and>
      updateStats no_faults example_clock example_order empty_world = Inr (s0, w0) \<and>
      categoryStats s0 = zero_categoryStats\<lparr>Cafe := Num 2\<rparr> \<and>
      categoryStats s' = zero_categoryStats\<lparr>Rice := Num 2, Cafe := Num 2\<rparr> \<and>
      Sizzling (categoryStats s') = Num 0)"
proof -
  have v: "valid_payload sisig_order"
    by (simp add: valid_payload_def valid_item_def sisig_order_def sisig_item_def
          example_items_def)
  have i: "items sisig_order = Some (example_items @ sisig_item # [])"
    by (simp add: sisig_order_def)
  have n: "name sisig_item = Some ''Sizzling Pork Sisig''" "quantity sisig_item = Num 2"
    by (simp_all add: sisig_item_def)
  have o: "sisig_order\<lparr>items := Some (example_items @ [])\<rparr> = example_order"
    by (simp add: sisig_order_def example_order_def)
  have c: "categorize_all zero_categoryStats example_items =
      Inr (zero_categoryStats\<lparr>Cafe := Num 2\<rparr>)"
    by (simp add: example_items_def categorize_def toLowerCase_def lower_char_def
          zero_categoryStats_def)
  have b: "categoryStats (base_stats example_clock empty_world) = zero_categoryStats"
    by (simp add: base_stats_def empty_world_def new_stats_def)
  have ve: "list_all valid_item example_items" "items example_order = Some example_items"
    by (simp_all add: valid_item_def example_items_def example_order_def)
  from sisig_counts_as_Rice [OF v i integral_base_examples(1)] obtain s' w' s0 w0
    where u: "updateStats no_faults example_clock sisig_order empty_world = Inr (s', w')"
      and st: "statsdb w' (today example_clock) = Some s'"
      and u0: "updateStats no_faults example_clock example_order empty_world = Inr (s0, w0)"
      and r: "categoryStats s' =
        (categoryStats s0)\<lparr>Rice := jadd (Rice (categoryStats s0)) (Num 2)\<rparr>"
    unfolding o using n by auto
  from updateStats_valid [OF ve integral_base_examples(1)] u0 c b
  have c0: "categoryStats s0 = zero_categoryStats\<lparr>Cafe := Num 2\<rparr>" by auto
  have "categoryStats s' = zero_categoryStats\<lparr>Rice := Num 2, Cafe := Num 2\<rparr>"
    "Sizzling (categoryStats s') = Num 0"
    by (simp_all add: r c0 zero_categoryStats_def)
  with u st u0 c0 v i n integral_base_examples(1) show ?thesis by blast
qed

section \<open>The dashboard\<close>

text \<open>
  C6: without a record for today \<open>getDashboardStats\<close> returns the all-zero shape with empty
  \<open>topProducts\<close> and an empty \<open>hourlyStats\<close> mapping; with a record \<open>s\<close> it returns the
  projection of \<open>s\<close> in which \<open>totalProducts\<close> is the length of \<open>topProducts\<close>, \<open>totalStocks\<close>
  is \<open>itemsSold\<close>, \<open>dineInToday\<close> and \<open>takeoutToday\<close> are \<open>dineInOrders\<close> and \<open>takeoutOrders\<close>,
  and the other fields are those of \<open>s\<close>. In both cases the state is left as it was.
\<close>

theorem getDashboardStats_shape:
  "getDashboardStats no_faults c (w\<lparr>statsdb := (statsdb w)(today c := None)\<rparr>) =
     (Inr \<lparr>d_totalOrders = Num 0, d_totalProducts = Num 0, d_totalStocks = Num 0,
           d_ordersToday = Num 0, d_itemsSoldToday = Num 0, d_dineInToday = Num 0,
           d_takeoutToday = Num 0, d_categoryStats = zero_categoryStats,
           d_hourlyStats = Map.empty, d_topProducts = []\<rparr>,
      w\<lparr>statsdb := (statsdb w)(today c := None)\<rparr>) \<and>
   getDashboardStats no_faults c (w\<lparr>statsdb := (statsdb w)(today c \<mapsto> s)\<rparr>) =
     (Inr \<lparr>d_totalOrders = totalOrders s, d_totalProducts = Num (int (length (topProducts s))),
           d_totalStocks = itemsSold s, d_ordersToday = ordersToday s,
           d_itemsSoldToday = itemsSoldToday s, d_dineInToday = dineInOrders s,
           d_takeoutToday = takeoutOrders s, d_categoryStats = categoryStats s,
           d_hourlyStats = hourlyStats s, d_topProducts = topProducts s\<rparr>,
      w\<lparr>statsdb := (statsdb w)(today c \<mapsto> s)\<rparr>)"
  by (simp add: getDashboardStats_def no_faults_def zero_categoryStats_def)

theorem getDashboardStats_shape_witness:
  "getDashboardStats no_faults example_clock empty_world =
     (Inr \<lparr>d_totalOrders = Num 0, d_totalProducts = Num 0, d_totalStocks = Num 0,
           d_ordersToday = Num 0, d_itemsSoldToday = Num 0, d_dineInToday = Num 0,
           d_takeoutToday = Num 0, d_categoryStats = zero_categoryStats,
           d_hourlyStats = Map.empty, d_topProducts = []\<rparr>, empty_world) \<and>
   getDashboardStats no_faults (example_clock\<lparr>today := 99\<rparr>) yesterday_world =
     (Inr \<lparr>d_totalOrders = Num 5, d_totalProducts = Num 2,
           d_totalStocks = Num 12, d_ordersToday = Num 2,
           d_itemsSoldToday = Num 4, d_dineInToday = Num 3,
           d_takeoutToday = Num 2, d_categoryStats = categoryStats yesterday_stats,
           d_hourlyStats = hourlyStats yesterday_stats,
           d_topProducts = topProducts yesterday_stats\<rparr>, yesterday_world)"
proof -
  have e: "empty_world\<lparr>statsdb := (statsdb empty_world)(today example_clock := None)\<rparr> = empty_world"
    by (simp add: empty_world_def)
  have y: "yesterday_world\<lparr>statsdb := (statsdb yesterday_world)
             (today (example_clock\<lparr>today := 99\<rparr>) \<mapsto> yesterday_stats)\<rparr> = yesterday_world"
    by (simp add: yesterday_world_def)
  show ?thesis
    using getDashboardStats_shape [of example_clock empty_world yesterday_stats]
      getDashboardStats_shape [of "example_clock\<lparr>today := 99\<rparr>" yesterday_world yesterday_stats]
    by (simp only: e y) (simp add: yesterday_stats_def)
qed

section \<open>The order handler\<close>

lemma post_orders_accepted:
  assumes "items body = Some its" and "its \<noteq> []" and "truthy (total body)"
    and "\<not> order_save_fails f"
  shows "post_orders f c body w =
     (case updateStats f c (default_type body)
             (order_saved (make_order (length (orders w)) (default_type body) its) w) of
        Inl statsError \<Rightarrow>
          (Accepted (length (orders w)),
           (order_saved (make_order (length (orders w)) (default_type body) its) w)
             \<lparr>console := console w @ [OrderSaved (length (orders w)), StatsUpdateError statsError]\<rparr>)
      | Inr (s, w2) \<Rightarrow> (Accepted (length (orders w)), w2))"
  using assms
  by (simp add: post_orders_def Let_def make_order_def order_saved_def split: sum.split)

lemma base_stats_order_saved [simp]: "base_stats c (order_saved ord w) = base_stats c w"
  by (simp add: base_stats_def order_saved_def split: option.split)

lemma items_default_type [simp]: "items (default_type od) = items od"
  by (simp add: default_type_def)

lemma valid_payload_default_type [simp]: "valid_payload (default_type od) = valid_payload od"
  by (simp add: valid_payload_def)






text \<open>
  C7: when the order has been saved and \<open>updateStats\<close> then throws, the handler logs the
  error and answers with success and the saved order's id; the saved order stays in the
  orders collection and the stats collection is as it was.
\<close>

theorem stats_failure_not_surfaced:
  assumes "items body = Some its" and "its \<noteq> []" and "truthy (total body)"
    and "\<not> order_save_fails f"
    and "updateStats f c (default_type body)
           (order_saved (make_order (length (orders w)) (default_type body) its) w) = Inl e"
  shows "post_orders f c body w =
     (Accepted (length (orders w)),
      w\<lparr>orders := orders w @ [make_order (length (orders w)) (default_type body) its],
        console := console w @ [OrderSaved (length (orders w)), StatsUpdateError e]\<rparr>)"
  by (simp add: post_orders_accepted [OF assms(1-4)] assms(5)) (simp add: order_saved_def)

theorem stats_failure_not_surfaced_witness:
  "items example_order = Some example_items \<and> example_items \<noteq> [] \<and>
   truthy (total example_order) \<and> \<not> order_save_fails stats_store_down \<and>
   updateStats stats_store_down example_clock (default_type example_order)
     (order_saved (make_order (length (orders empty_world)) (default_type example_order)
        example_items) empty_world) = Inl PersistenceError \<and>
   post_orders stats_store_down example_clock example_order empty_world =
     (Accepted 0,
      empty_world\<lparr>orders := [make_order 0 example_order example_items],
        console := [OrderSaved 0, StatsUpdateError PersistenceError]\<rparr>)"
proof -
  have u: "updateStats stats_store_down example_clock (default_type example_order)
     (order_saved (make_order (length (orders empty_world)) (default_type example_order)
        example_items) empty_world) = Inl PersistenceError"
    by (simp add: updateStats_def load_stats_def stats_store_down_def)
  have h: "items example_order = Some example_items" "example_items \<noteq> []"
    "truthy (total example_order)" "\<not> order_save_fails stats_store_down"
    by (simp_all add: example_order_def example_items_def stats_store_down_def no_faults_def)
  have d: "default_type example_order = example_order"
    by (simp add: default_type_def example_order_def)
  show ?thesis
    using stats_failure_not_surfaced [OF h u] h u
    by (simp add: d) (simp add: empty_world_def)
qed

section \<open>Payloads that make \<open>updateStats\<close> throw\<close>

lemma categorize_all_nameless:
  "\<not> list_all (\<lambda>it. name it \<noteq> None) its \<Longrightarrow> categorize_all cs its = Inl TypeError"
proof (induction its arbitrary: cs)
  case Nil
  then show ?case by simp
next
  case (Cons it its)
  show ?case
  proof (cases "name it")
    case None
    then show ?thesis by (simp add: categorize_def)
  next
    case (Some n)
    with Cons.prems have r: "\<not> list_all (\<lambda>it. name it \<noteq> None) its" by simp
    from categorize_named [of it cs] Some obtain cs1 where "categorize cs it = Inr cs1" by auto
    with Cons.IH [OF r] show ?thesis by simp
  qed
qed

lemma apply_order_nameless:
  assumes "items od = Some its" and "\<not> list_all (\<lambda>it. name it \<noteq> None) its"
  shows "apply_order c od s = Inl TypeError"
  using assms(1) by (simp add: apply_order_def Let_def categorize_all_nameless [OF assms(2)])

lemma foldl_jadd_NaN: "foldl (\<lambda>sum it. jadd sum (quantity it)) NaN its = NaN"
  by (induction its) simp_all

lemma foldl_jadd_missing:
  "\<not> list_all (\<lambda>it. is_num (quantity it)) its \<Longrightarrow>
   foldl (\<lambda>sum it. jadd sum (quantity it)) (Num a) its = NaN"
proof (induction its arbitrary: a)
  case Nil
  then show ?case by simp
next
  case (Cons it its)
  show ?case
  proof (cases "quantity it")
    case (Num q)
    with Cons.prems have "\<not> list_all (\<lambda>it. is_num (quantity it)) its" by simp
    from Cons.IH [OF this] Num show ?thesis by simp
  next
    case NaN
    then show ?thesis by (simp add: foldl_jadd_NaN)
  next
    case Undefined
    then show ?thesis by (simp add: foldl_jadd_NaN)
  qed
qed

lemma jadd_NaN_right [simp]: "jadd a NaN = NaN"
  by (cases a) simp_all

text \<open>With every item named and some quantity not a number, the sum of the quantities is
  NaN, \<open>itemsSold\<close> becomes NaN, and \<open>save\<close> rejects the record.\<close>

lemma updateStats_missing_quantity:
  assumes "items od = Some its" and "list_all (\<lambda>it. name it \<noteq> None) its"
    and "\<not> list_all (\<lambda>it. is_num (quantity it)) its"
    and "load_stats f c w = Inr s"
  shows "updateStats f c od w = Inl ValidationError"
proof -
  have n: "itemsInOrder its = NaN"
    using foldl_jadd_missing [OF assms(3), of 0] by (simp add: itemsInOrder_def)
  from apply_order_named [OF assms(1,2), of s c] obtain s'
    where ap: "apply_order c od s = Inr s'" and "itemsSold s' = jadd (itemsSold s) (itemsInOrder its)"
    by auto
  then have "\<not> validate_stats s'" by (simp add: n validate_stats_def)
  with ap show ?thesis by (simp add: updateStats_def assms(4))
qed


section \<open>The type of an order\<close>




section \<open>An item without quantity\<close>

text \<open>
  C8, at an order whose item has no \<open>quantity\<close>: the saved order document has quantity
  \<open>1\<close>, while \<open>updateStats\<close> receives the payload as it came, with the quantity missing.
  The sum of its quantities is NaN and \<open>updateStats\<close> throws a ValidationError, which the
  handler logs; the response is success and no record of the day is stored.
\<close>

theorem missing_quantity_reaches_stats:
  "fst (post_orders no_faults example_clock no_quantity_order empty_world) = Accepted 0 \<and>
   map oi_quantity (concat (map o_items
     (orders (snd (post_orders no_faults example_clock no_quantity_order empty_world))))) = [Num 1] \<and>
   map quantity no_quantity_items = [Undefined] \<and>
   itemsInOrder no_quantity_items = NaN \<and>
   updateStats no_faults example_clock no_quantity_order
     (order_saved (make_order 0 no_quantity_order no_quantity_items) empty_world) =
     Inl ValidationError \<and>
   console (snd (post_orders no_faults example_clock no_quantity_order empty_world)) =
     [OrderSaved 0, StatsUpdateError ValidationError] \<and>
   statsdb (snd (post_orders no_faults example_clock no_quantity_order empty_world))
     (today example_clock) = None"
proof -
  have a: "items no_quantity_order = Some no_quantity_items" "no_quantity_items \<noteq> []"
    "truthy (total no_quantity_order)"
    by (simp_all add: no_quantity_order_def no_quantity_items_def)
  have d: "default_type no_quantity_order = no_quantity_order"
    by (simp add: default_type_def no_quantity_order_def)
  have nf: "\<not> order_save_fails no_faults" by (simp add: no_faults_def)
  have e: "length (orders empty_world) = 0" by (simp add: empty_world_def)
  have q: "map quantity no_quantity_items = [Undefined]"
    "itemsInOrder no_quantity_items = NaN"
    by (simp_all add: no_quantity_items_def itemsInOrder_def)
  have u: "updateStats no_faults example_clock no_quantity_order
     (order_saved (make_order 0 no_quantity_order no_quantity_items) empty_world) =
     Inl ValidationError"
    using a(1)
  proof (rule updateStats_missing_quantity)
    show "list_all (\<lambda>it. name it \<noteq> None) no_quantity_items"
      by (simp add: no_quantity_items_def)
    show "\<not> list_all (\<lambda>it. is_num (quantity it)) no_quantity_items"
      by (simp add: no_quantity_items_def)
  qed (rule load_stats_no_faults)
  have o: "map order_item_of no_quantity_items =
      [\<lparr>oi_name = ''Plain Rice'', oi_price = Num 20, oi_quantity = Num 1,
        oi_image = ''default_food.jpg''\<rparr>]"
    by (simp add: no_quantity_items_def order_item_of_def js_or_def js_or_str_def)
  have p: "post_orders no_faults example_clock no_quantity_order empty_world =
      (Accepted 0,
       (order_saved (make_order 0 no_quantity_order no_quantity_items) empty_world)
         \<lparr>console := console empty_world @ [OrderSaved 0, StatsUpdateError ValidationError]\<rparr>)"
    using post_orders_accepted [OF a nf, of example_clock empty_world]
    by (simp only: d e u sum.case)
  show ?thesis
    using q u
    by (simp add: p order_saved_def make_order_def o) (simp add: empty_world_def)
qed

section \<open>Entries that leave the top products list\<close>

lemma quantity_of_upsert:
  "quantity_of (upsert ps it) k =
     (if k = name it
      then Some (case quantity_of ps k of None \<Rightarrow> quantity it | Some q \<Rightarrow> jadd q (quantity it))
      else quantity_of ps k)"
  by (induction ps) (auto simp: quantity_of_def)

lemma names_upsert: "set (map pname (upsert ps it)) = insert (name it) (set (map pname ps))"
  by (induction ps) auto

lemma distinct_upsert: "distinct (map pname ps) \<Longrightarrow> distinct (map pname (upsert ps it))"
proof (induction ps)
  case Nil
  then show ?case by simp
next
  case (Cons p ps)
  have "pname p \<noteq> name it \<Longrightarrow> pname p \<notin> set (map pname (upsert ps it))"
    using Cons.prems by (simp only: names_upsert) auto
  with Cons show ?case by auto
qed

lemma distinct_upsert_all:
  "distinct (map pname ps) \<Longrightarrow> distinct (map pname (upsert_all ps its))"
  unfolding upsert_all_def by (induction its arbitrary: ps) (simp_all add: distinct_upsert)

lemma quantity_of_upsert_all_present:
  "list_all valid_item its \<Longrightarrow> quantity_of ps k = Some (Num a) \<Longrightarrow>
   quantity_of (upsert_all ps its) k = Some (Num (a + ordered_quantity k its))"
proof (induction its arbitrary: ps a)
  case Nil
  then show ?case by (simp add: upsert_all_def ordered_quantity_def)
next
  case (Cons it its)
  from Cons.prems have vi: "valid_item it" and v: "list_all valid_item its" by simp_all
  from vi obtain q where q: "quantity it = Num q"
    by (cases "quantity it") (simp_all add: valid_item_def)
  have u: "upsert_all ps (it # its) = upsert_all (upsert ps it) its"
    by (simp add: upsert_all_def)
  show ?case
  proof (cases "k = name it")
    case True
    then have "quantity_of (upsert ps it) k = Some (Num (a + q))"
      using Cons.prems(2) q by (simp add: quantity_of_upsert)
    from Cons.IH [OF v this] True q show ?thesis
      by (simp add: u ordered_quantity_def)
  next
    case False
    then have "quantity_of (upsert ps it) k = Some (Num a)"
      using Cons.prems(2) by (simp add: quantity_of_upsert)
    from Cons.IH [OF v this] False show ?thesis
      by (simp add: u ordered_quantity_def)
  qed
qed

lemma quantity_of_upsert_all_absent:
  "list_all valid_item its \<Longrightarrow> quantity_of ps k = None \<Longrightarrow>
   quantity_of (upsert_all ps its) k =
     (if k \<in> name ` set its then Some (Num (ordered_quantity k its)) else None)"
proof (induction its arbitrary: ps)
  case Nil
  then show ?case by (simp add: upsert_all_def)
next
  case (Cons it its)
  from Cons.prems have vi: "valid_item it" and v: "list_all valid_item its" by simp_all
  from vi obtain q where q: "quantity it = Num q"
    by (cases "quantity it") (simp_all add: valid_item_def)
  have u: "upsert_all ps (it # its) = upsert_all (upsert ps it) its"
    by (simp add: upsert_all_def)
  show ?case
  proof (cases "k = name it")
    case True
    then have "quantity_of (upsert ps it) k = Some (Num q)"
      using Cons.prems(2) q by (simp add: quantity_of_upsert)
    from quantity_of_upsert_all_present [OF v this] True q show ?thesis
      by (simp add: u ordered_quantity_def)
  next
    case False
    then have "quantity_of (upsert ps it) k = None"
      using Cons.prems(2) by (simp add: quantity_of_upsert)
    from Cons.IH [OF v this] False show ?thesis
      by (auto simp: u ordered_quantity_def)
  qed
qed

lemma quantity_of_None: "quantity_of ps k = None \<longleftrightarrow> k \<notin> set (map pname ps)"
  by (simp add: quantity_of_def map_of_eq_None_iff image_image)

lemma quantity_of_member:
  "distinct (map pname ps) \<Longrightarrow> p \<in> set ps \<Longrightarrow> quantity_of ps (pname p) = Some (pquantity p)"
  unfolding quantity_of_def by (rule map_of_is_SomeI) (auto simp: comp_def)

lemma distinct_js_insert:
  "distinct (map f (js_insert cmp x ys)) = (f x \<notin> f ` set ys \<and> distinct (map f ys))"
  by (induction ys) (auto simp: set_js_insert)

lemma distinct_js_sort: "distinct (map f (js_sort cmp xs)) = distinct (map f xs)"
proof (induction xs)
  case Nil
  show ?case by (simp add: js_sort_def)
next
  case (Cons x xs)
  have "js_sort cmp (x # xs) = js_insert cmp x (js_sort cmp xs)" by (simp add: js_sort_def)
  with Cons show ?case by (simp add: distinct_js_insert set_js_sort)
qed

lemma dropped_names_absent:
  assumes "distinct (map f xs)" and "p \<in> set (drop n xs)"
  shows "f p \<notin> set (map f (take n xs))"
proof -
  have "distinct (map f (take n xs) @ map f (drop n xs))"
    using assms(1) by (simp flip: map_append)
  then have "set (map f (take n xs)) \<inter> set (map f (drop n xs)) = {}" by simp
  with assms(2) show ?thesis by auto
qed

lemma apply_order_topProducts:
  assumes "items od = Some its" and "apply_order c od s = Inr r"
  shows "apply_order c od (s\<lparr>topProducts := tp\<rparr>) =
     Inr (r\<lparr>topProducts := take 10 (js_sort by_quantity_desc (upsert_all tp its))\<rparr>)"
  using assms
  by (auto simp: apply_order_def Let_def count_type_def split: sum.splits if_splits)

lemma base_stats_stored [simp]:
  "base_stats c (w\<lparr>statsdb := (statsdb w)(today c \<mapsto> s)\<rparr>) = s"
  by (simp add: base_stats_def)


lemma integral_topProducts: "integral s \<Longrightarrow> numeric tp \<Longrightarrow> integral (s\<lparr>topProducts := tp\<rparr>)"
  by (simp add: integral_def)

text \<open>
  C10: after an update with a valid payload, on a record of integers with distinct product
  names, the stored \<open>topProducts\<close> is the first ten entries of the sorted list. The names of
  the entries beyond the tenth do not occur in it, and no other field of the stored record
  depends on the quantities that \<open>topProducts\<close> held before the update. An entry whose name
  was not in the list before the update shows exactly the quantity of that name in this
  order, whatever was sold of it earlier.
\<close>

theorem dropped_products_forgotten:
  assumes "valid_payload od" and "items od = Some its"
    and "distinct (map pname (topProducts (base_stats c w)))"
    and "integral (base_stats c w)"
  shows "\<exists>s' w'. updateStats no_faults c od w = Inr (s', w') \<and>
           statsdb w' (today c) = Some s' \<and>
           topProducts s' =
             take 10 (js_sort by_quantity_desc (upsert_all (topProducts (base_stats c w)) its)) \<and>
           (\<forall>p \<in> set (drop 10
                 (js_sort by_quantity_desc (upsert_all (topProducts (base_stats c w)) its))).
              pname p \<notin> set (map pname (topProducts s'))) \<and>
           (\<forall>tp. numeric tp \<longrightarrow> (\<exists>r w''.
              updateStats no_faults c od
                (w\<lparr>statsdb := (statsdb w)(today c \<mapsto> (base_stats c w)\<lparr>topProducts := tp\<rparr>)\<rparr>) =
                Inr (r, w'') \<and>
              r\<lparr>topProducts := topProducts s'\<rparr> = s')) \<and>
           (\<forall>p \<in> set (topProducts s').
              pname p \<notin> set (map pname (topProducts (base_stats c w))) \<longrightarrow>
              pquantity p = Num (ordered_quantity (pname p) its)) \<and>
           distinct (map pname (topProducts s')) \<and> integral s'"
proof -
  let ?base = "base_stats c w"
  let ?ups = "upsert_all (topProducts ?base) its"
  let ?full = "js_sort by_quantity_desc ?ups"
  from assms(1,2) have v: "list_all valid_item its" by (simp add: valid_payload_def)
  from updateStats_valid [OF v assms(2,4)] obtain s' where
    u: "updateStats no_faults c od w = Inr (s', w\<lparr>statsdb := (statsdb w)(today c \<mapsto> s')\<rparr>)"
    and tp: "topProducts s' = take 10 ?full" and int: "integral s'" by blast
  from u have ap: "apply_order c od ?base = Inr s'"
    by (simp add: updateStats_no_faults split: sum.splits if_splits)
  have d_ups: "distinct (map pname ?ups)" using assms(3) by (rule distinct_upsert_all)
  then have d_full: "distinct (map pname ?full)" by (simp add: distinct_js_sort)
  have dropped: "\<forall>p \<in> set (drop 10 ?full). pname p \<notin> set (map pname (topProducts s'))"
    using dropped_names_absent [OF d_full] by (simp only: tp) blast
  have indep: "\<forall>tp. numeric tp \<longrightarrow> (\<exists>r w''.
      updateStats no_faults c od
        (w\<lparr>statsdb := (statsdb w)(today c \<mapsto> ?base\<lparr>topProducts := tp\<rparr>)\<rparr>) = Inr (r, w'') \<and>
      r\<lparr>topProducts := topProducts s'\<rparr> = s')"
  proof (intro allI impI)
    fix tp assume n: "numeric tp"
    let ?r = "s'\<lparr>topProducts := take 10 (js_sort by_quantity_desc (upsert_all tp its))\<rparr>"
    have a: "apply_order c od (?base\<lparr>topProducts := tp\<rparr>) = Inr ?r"
      by (rule apply_order_topProducts [OF assms(2) ap])
    have "integral ?r"
      using assms(2) v integral_topProducts [OF assms(4) n] a by (rule apply_order_integral)
    then have "validate_stats ?r" by (rule integral_validate)
    then show "\<exists>r w''.
      updateStats no_faults c od
        (w\<lparr>statsdb := (statsdb w)(today c \<mapsto> ?base\<lparr>topProducts := tp\<rparr>)\<rparr>) = Inr (r, w'') \<and>
      r\<lparr>topProducts := topProducts s'\<rparr> = s'"
      by (simp add: updateStats_no_faults a)
  qed
  have fresh: "\<forall>p \<in> set (topProducts s').
      pname p \<notin> set (map pname (topProducts ?base)) \<longrightarrow>
      pquantity p = Num (ordered_quantity (pname p) its)"
  proof (intro ballI impI)
    fix p assume p: "p \<in> set (topProducts s')"
      and n: "pname p \<notin> set (map pname (topProducts ?base))"
    from p have "p \<in> set ?ups" by (auto simp: tp set_js_sort dest: in_set_takeD)
    from quantity_of_member [OF d_ups this]
    have 1: "quantity_of ?ups (pname p) = Some (pquantity p)" .
    from n have "quantity_of (topProducts ?base) (pname p) = None"
      by (simp only: quantity_of_None) simp
    from quantity_of_upsert_all_absent [OF v this] 1
    show "pquantity p = Num (ordered_quantity (pname p) its)"
      by (simp split: if_splits)
  qed
  have d_top: "distinct (map pname (topProducts s'))"
    using d_full by (simp add: tp flip: take_map)
  show ?thesis
  proof (intro exI conjI)
    show "updateStats no_faults c od w = Inr (s', w\<lparr>statsdb := (statsdb w)(today c \<mapsto> s')\<rparr>)"
      by (rule u)
    show "statsdb (w\<lparr>statsdb := (statsdb w)(today c \<mapsto> s')\<rparr>) (today c) = Some s'" by simp
    show "topProducts s' = take 10 ?full" by (rule tp)
  qed (rule dropped indep fresh d_top int)+
qed

lemma sort_with_k_first:
  "take 10 (js_sort by_quantity_desc (upsert_all ten_products [k_item 1])) = ten_products"
  by (simp add: upsert_all_def js_sort_def by_quantity_desc_def ten_products_def five_of_def
        k_item_def)

lemma sort_with_k_second:
  "take 10 (js_sort by_quantity_desc (upsert_all ten_products [k_item 7])) =
   \<lparr>pname = Some ''k'', pquantity = Num 7\<rparr> # butlast ten_products"
  by (simp add: upsert_all_def js_sort_def by_quantity_desc_def ten_products_def five_of_def
        k_item_def)

lemma valid_k_order: "0 < q \<Longrightarrow> valid_payload (k_order q)"
  by (simp add: valid_payload_def valid_item_def k_order_def k_item_def)

lemma after_first_base:
  "topProducts (base_stats example_clock after_first) = ten_products"
  "integral (base_stats example_clock after_first)"
proof -
  have v: "list_all valid_item [k_item 1]" by (simp add: valid_item_def k_item_def)
  have i: "items (k_order 1) = Some [k_item 1]"
    by (simp add: k_order_def)
  have b: "topProducts (base_stats example_clock full_world) = ten_products"
    by (simp add: base_stats_def full_world_def example_clock_def full_stats_def)
  from updateStats_valid [OF v i integral_base_examples(3)] b
  show "topProducts (base_stats example_clock after_first) = ten_products"
    "integral (base_stats example_clock after_first)"
    by (auto simp: after_first_def world_of_def sort_with_k_first)
qed

theorem dropped_products_forgotten_witness:
  "valid_payload (k_order 7) \<and>
   topProducts (base_stats example_clock full_world) = ten_products \<and>
   topProducts (base_stats example_clock after_first) = ten_products \<and>
   distinct (map pname (topProducts (base_stats example_clock after_first))) \<and>
   integral (base_stats example_clock after_first) \<and>
   (\<exists>s' w'. updateStats no_faults example_clock (k_order 7) after_first = Inr (s', w') \<and>
      topProducts s' = \<lparr>pname = Some ''k'', pquantity = Num 7\<rparr> # butlast ten_products) \<and>
   ordered_quantity (Some ''k'') [k_item 1, k_item 7] = 8"
proof -
  have v: "valid_payload (k_order 7)" by (simp add: valid_k_order)
  have i: "items (k_order 7) = Some [k_item 7]"
    by (simp add: k_order_def)
  have d: "distinct (map pname (topProducts (base_stats example_clock after_first)))"
    by (simp add: after_first_base(1)) (simp add: ten_products_def five_of_def)
  have b: "topProducts (base_stats example_clock full_world) = ten_products"
    by (simp add: base_stats_def full_world_def example_clock_def full_stats_def)
  have t: "ordered_quantity (Some ''k'') [k_item 1, k_item 7] = 8"
    by (simp add: k_item_def ordered_quantity_def)
  from dropped_products_forgotten [OF v i d after_first_base(2)]
  have "\<exists>s' w'. updateStats no_faults example_clock (k_order 7) after_first = Inr (s', w') \<and>
      topProducts s' = \<lparr>pname = Some ''k'', pquantity = Num 7\<rparr> # butlast ten_products"
    by (auto simp: after_first_base(1) sort_with_k_second)
  with v b d t after_first_base(2) show ?thesis by (simp add: after_first_base(1))
qed

section \<open>The store holds records of integers\<close>

text \<open>Whatever the payload, a record that \<open>save\<close> accepts after an update of a record of
  integers is a record of integers: every record of the stats collection is one, in every
  state that the handler reaches from the empty collection.\<close>

lemma numeric_upsert_all_num:
  "numeric ps \<Longrightarrow> list_all (\<lambda>it. is_num (quantity it)) its \<Longrightarrow> numeric (upsert_all ps its)"
  unfolding upsert_all_def
  by (induction its arbitrary: ps) (simp_all add: numeric_upsert)

lemma is_num_foldl_jadd:
  "list_all (\<lambda>it. is_num (quantity it)) its \<Longrightarrow>
   is_num (foldl (\<lambda>sum it. jadd sum (quantity it)) (Num a) its)"
proof (induction its arbitrary: a)
  case Nil
  then show ?case by simp
next
  case (Cons it its)
  then obtain q where "quantity it = Num q" by (cases "quantity it") simp_all
  with Cons show ?case by simp
qed

lemma integral_categorize_all_num:
  assumes "list_all (\<lambda>it. is_num (quantity it)) its" and "integral_buckets cs"
    and "categorize_all cs its = Inr cs'"
  shows "integral_buckets cs'"
  using assms
proof (induction its arbitrary: cs)
  case Nil
  then show ?case by simp
next
  case (Cons it its)
  from Cons.prems(1) have q: "is_num (quantity it)"
    and v: "list_all (\<lambda>it. is_num (quantity it)) its" by simp_all
  from Cons.prems(3) obtain n where n: "name it = Some n"
    by (cases "name it") (simp_all add: categorize_def)
  let ?c1 = "add_to_bucket (spec_bucket (toLowerCase n)) (quantity it) cs"
  have "integral_buckets ?c1" using Cons.prems(2) q by (rule integral_add_to_bucket)
  moreover have "categorize_all ?c1 its = Inr cs'"
    using Cons.prems(3) by (simp add: categorize_spec_bucket [OF n])
  ultimately show ?case using Cons.IH [OF v] by blast
qed

lemma apply_order_validated:
  assumes "integral s" and "apply_order c od s = Inr s'" and "validate_stats s'"
  shows "integral s'"
proof -
  from assms(2) obtain its where its: "items od = Some its"
    by (cases "items od") (simp_all add: apply_order_def)
  have named: "list_all (\<lambda>it. name it \<noteq> None) its"
    using apply_order_nameless [OF its, of c s] assms(2) by auto
  from apply_order_named [OF its named, of s c] assms(2)
  obtain cs where cs: "categorize_all (categoryStats s) its = Inr cs"
    and s': "s' = (count_type (otype od) s)
          \<lparr>totalOrders := jadd (totalOrders s) (Num 1),
           ordersToday := jadd (ordersToday s) (Num 1),
           itemsSold := jadd (itemsSold s) (itemsInOrder its),
           itemsSoldToday := jadd (itemsSoldToday s) (itemsInOrder its),
           hourlyStats := count_hour (hour c) (hourlyStats s),
           categoryStats := cs,
           topProducts := take 10 (js_sort by_quantity_desc (upsert_all (topProducts s) its)),
           lastUpdated := now c\<rparr>" by auto
  have q: "list_all (\<lambda>it. is_num (quantity it)) its"
  proof (rule ccontr)
    assume "\<not> list_all (\<lambda>it. is_num (quantity it)) its"
    from foldl_jadd_missing [OF this, of 0] have "itemsInOrder its = NaN"
      by (simp add: itemsInOrder_def)
    then have "itemsSold s' = NaN" by (simp add: s')
    with assms(3) show False by (simp add: validate_stats_def)
  qed
  have n: "is_num (itemsInOrder its)"
    using is_num_foldl_jadd [OF q, of 0] by (simp add: itemsInOrder_def)
  have b: "integral_buckets cs"
    using q _ cs by (rule integral_categorize_all_num) (use assms(1) in \<open>simp add: integral_def\<close>)
  have t: "numeric (take 10 (js_sort by_quantity_desc (upsert_all (topProducts s) its)))"
    using assms(1)
    by (intro numeric_take) (simp add: numeric_js_sort numeric_upsert_all_num q integral_def)
  have h: "integral_hours (count_hour (hour c) (hourlyStats s))"
    using assms(1) by (intro integral_hours_count_hour) (simp add: integral_def)
  from integral_count_type [OF assms(1), of "otype od"]
  have ct: "is_num (dineInOrders (count_type (otype od) s))"
    "is_num (takeoutOrders (count_type (otype od) s))" by (simp_all add: integral_def)
  show ?thesis
    using assms(1) b t h ct n by (simp add: s' integral_def is_num_jadd)
qed

lemma integral_base_stats:
  assumes "\<And>d s. statsdb w d = Some s \<Longrightarrow> integral s"
  shows "integral (base_stats c w)"
proof (cases "statsdb w (today c)")
  case None
  have "case statsdb w (today c - 1) of None \<Rightarrow> True | Some s \<Rightarrow> integral s"
    using assms by (simp split: option.split)
  then show ?thesis using None by (simp add: base_stats_def integral_new_stats)
next
  case (Some s)
  with assms show ?thesis by (simp add: base_stats_def)
qed

lemma updateStats_keeps_integral:
  assumes "\<And>d s. statsdb w d = Some s \<Longrightarrow> integral s"
    and "updateStats f c od w = Inr (s', w')"
  shows "integral s'" and "statsdb w' d = Some s \<Longrightarrow> integral s"
proof -
  from assms(2) have l: "load_stats f c w = Inr (base_stats c w)"
    by (auto simp: updateStats_def load_stats_def base_stats_def
          split: sum.splits if_splits option.splits)
  from assms(2) l have ap: "apply_order c od (base_stats c w) = Inr s'"
    and va: "validate_stats s'"
    and w': "w' = w\<lparr>statsdb := (statsdb w)(today c \<mapsto> s')\<rparr>"
    by (auto simp: updateStats_def split: sum.splits if_splits)
  show i: "integral s'"
    using integral_base_stats [OF assms(1)] ap va by (rule apply_order_validated)
  show "statsdb w' d = Some s \<Longrightarrow> integral s"
    using i assms(1) by (auto simp: w' split: if_splits)
qed

lemma post_orders_keeps_integral:
  assumes "\<And>d s. statsdb w d = Some s \<Longrightarrow> integral s"
    and "post_orders f c body w = (r, w')"
    and "statsdb w' d = Some s"
  shows "integral s"
proof -
  have o: "\<And>ord. statsdb (order_saved ord w) = statsdb w" by (simp add: order_saved_def)
  have k: "\<And>ord d s. statsdb (order_saved ord w) d = Some s \<Longrightarrow> integral s"
    using assms(1) by (simp add: o)
  from assms(2) consider "statsdb w' = statsdb w"
    | ord s' where "updateStats f c (default_type body) (order_saved ord w) = Inr (s', w')"
    by (auto simp: post_orders_def Let_def o split: option.splits if_splits sum.splits)
  then show ?thesis
  proof cases
    case 1
    with assms(1,3) show ?thesis by simp
  next
    case 2
    from updateStats_keeps_integral(2) [OF k 2 assms(3)] show ?thesis by simp
  qed
qed

end
